theory Spec2Isabelle
  imports Complex_Main
begin

section \<open>Route legs of a flight plan: \<open>src/route/routemapobject.cpp\<close>\<close>

text \<open>
  A shallow embedding of \<open>RouteMapObject\<close>, the class that resolves one leg of a flight
  route against the navigation database or a procedure definition.

  Conventions of the embedding.
  \<^item> A C++ \<open>float\<close> is a \<open>real\<close>: the comparisons and the arithmetic of the code are
    those of the reals; rounding, infinities and NaN are outside the model.
  \<^item> \<open>atools::geo::Pos\<close> comes from the atools library, which is not part of this
    repository. It is the type parameter \<open>'p\<close>; every library function on it is a field of
    the record \<open>Env\<close> that each operation takes as its first argument.
  \<^item> Member functions that mutate \<open>*this\<close> take the leg and return the new leg. Those
    that write to the owning flight plan or call the database take and return a
    \<open>World\<close>: the flight plan together with the log of the database calls made.
  \<^item> An index outside a container (\<open>QList::at\<close>, \<open>operator[]\<close>) is the error
    \<open>IndexOutOfRange\<close>; operations that index return \<open>Error + result\<close>.
\<close>

subsection \<open>Data\<close>

type_synonym float = real

datatype Error = IndexOutOfRange

text \<open>\<open>QList::at\<close> and \<open>operator[]\<close>: the element at an \<open>int\<close> index, or the error.\<close>

definition QList_at :: "'a list \<Rightarrow> int \<Rightarrow> Error + 'a" where
  "QList_at xs i = (if 0 \<le> i \<and> i < int (length xs) then Inr (xs ! nat i) else Inl IndexOutOfRange)"

text \<open>\<open>atools::fs::pln::entry::WaypointType\<close>, the kind a flight plan entry asks for.\<close>

datatype WaypointType = UNKNOWN | AIRPORT | INTERSECTION | VOR | NDB | USER

text \<open>
  Modelled from the spec: the enumeration \<open>maptypes::MapObjectTypes\<close> is declared in
  \<open>maptypes.h\<close>, which is not among the sources. The spec lists the kinds of a leg as
  Airport, Waypoint, VOR, NDB, ILS, RunwayEnd, ProcedureLeg(subtype), User and Invalid;
  the subtype of a procedure leg is an opaque tag. \<open>NONE\<close> stands for every other value
  (a leg that no operation has given a kind yet).
\<close>

datatype MapObjectTypes =
  NONE | AIRPORT | VOR | NDB | ILS | WAYPOINT | USER | RUNWAYEND | INVALID | PROCEDURE nat

text \<open>\<open>atools::geo::Line\<close>: the two end points of a line.\<close>

record 'p Line =
  pos1 :: 'p
  pos2 :: 'p

type_synonym 'p LineString = "'p list"

text \<open>
  The payload structures of \<open>maptypes.h\<close>, with the members that the file reads. The
  member function \<open>isValid()\<close> of each is declared there too; the model keeps its result
  as the field \<open>isValid\<close> of the object. \<open>db_id\<close> is the member \<open>id\<close>.
\<close>

record 'p MapAirport =
  db_id :: int
  ident :: string
  name :: string
  position :: 'p
  magvar :: float
  isValid :: bool

record 'p MapVor =
  db_id :: int
  ident :: string
  region :: string
  name :: string
  position :: 'p
  magvar :: float
  range :: int
  frequency :: int
  isValid :: bool

record 'p MapNdb =
  db_id :: int
  ident :: string
  region :: string
  name :: string
  position :: 'p
  magvar :: float
  range :: int
  frequency :: int
  isValid :: bool

record 'p MapWaypoint =
  db_id :: int
  ident :: string
  region :: string
  position :: 'p
  magvar :: float
  isValid :: bool

record 'p MapIls =
  db_id :: int
  ident :: string
  name :: string
  position :: 'p
  range :: int
  frequency :: int
  isValid :: bool

record 'p MapRunwayEnd =
  name :: string
  position :: 'p
  isValid :: bool

text \<open>A parking spot. The file reads none of its members; it only stores and passes it on.\<close>

record MapParking =
  name :: string
  number :: int

record 'p MapStart =
  helipadNumber :: int
  runwayName :: string
  isValid :: bool

record 'p MapSearchResult =
  airports :: "'p MapAirport list"
  waypoints :: "'p MapWaypoint list"
  vors :: "'p MapVor list"
  ndbs :: "'p MapNdb list"
  ils :: "'p MapIls list"
  runwayEnds :: "'p MapRunwayEnd list"

record 'p MapApproachLeg =
  magvar :: float
  mapType :: MapObjectTypes
  navaids :: "'p MapSearchResult"
  line :: "'p Line"
  calculatedTrueCourse :: float
  calculatedDistance :: float
  geometry :: "'p LineString"
  displayText :: "string list"

text \<open>\<open>atools::fs::pln::FlightplanEntry\<close> and \<open>Flightplan\<close>, with the members the file uses.\<close>

record 'p FlightplanEntry =
  waypointType :: WaypointType
  icaoIdent :: string
  icaoRegion :: string
  position :: 'p
  airway :: string
  waypointId :: string

record 'p Flightplan =
  entries :: "'p FlightplanEntry list"
  departureParkingName :: string
  departurePosition :: 'p

text \<open>
  The members of \<open>RouteMapObject\<close>. The pointer \<open>flightplan\<close> is not a field: the flight
  plan that the legs of a route share is an argument of every operation that reads it.
\<close>

record 'p RouteMapObject =
  index :: int
  type :: MapObjectTypes
  airport :: "'p MapAirport"
  parking :: MapParking
  start :: "'p MapStart"
  vor :: "'p MapVor"
  ndb :: "'p MapNdb"
  ils :: "'p MapIls"
  runwayEnd :: "'p MapRunwayEnd"
  waypoint :: "'p MapWaypoint"
  approachLeg :: "'p MapApproachLeg"
  valid :: bool
  magvar :: float
  distanceTo :: float
  distanceToRhumb :: float
  courseTo :: float
  courseRhumbTo :: float
  geometry :: "'p LineString"

subsection \<open>The environment: library functions and constants declared outside the file\<close>

text \<open>
  The functions of atools (\<open>geo/pos.h\<close>, \<open>geo/calculations.h\<close>, \<open>geo/line.h\<close>,
  \<open>atools.h\<close>), the constants and helpers of \<open>maptypes\<close> that the file uses and does not
  define, and the default-constructed objects (\<open>TYPE()\<close>) whose member initialisers
  are in headers. They are parameters: the theorems hold for every choice of them, under
  the hypotheses they state.
\<close>

record 'p Env =
  distanceSimpleTo :: "'p \<Rightarrow> 'p \<Rightarrow> float"
  distanceMeterTo :: "'p \<Rightarrow> 'p \<Rightarrow> float"
  distanceMeterToRhumb :: "'p \<Rightarrow> 'p \<Rightarrow> float"
  angleDegTo :: "'p \<Rightarrow> 'p \<Rightarrow> float"
  angleDegToRhumb :: "'p \<Rightarrow> 'p \<Rightarrow> float"
  normalizeCourse :: "float \<Rightarrow> float"
  meterToNm :: "float \<Rightarrow> float"
  posIsValid :: "'p \<Rightarrow> bool"
  EMPTY_POS :: 'p
  lineIsPoint :: "'p Line \<Rightarrow> bool"
  almostNotEqual :: "float \<Rightarrow> float \<Rightarrow> bool"
  INVALID_DISTANCE_VALUE :: float
  parkingDatabaseName :: "string \<Rightarrow> string"
  parkingNameForFlightplan :: "MapParking \<Rightarrow> string"
  EMPTY_FLIGHTPLAN_ENTRY :: "'p FlightplanEntry"
  MapWaypoint_default :: "'p MapWaypoint"
  MapVor_default :: "'p MapVor"
  MapNdb_default :: "'p MapNdb"
  MapStart_default :: "'p MapStart"
  MapParking_default :: MapParking

text \<open>
  The database, \<open>MapQuery\<close> (\<open>mapgui/mapquery.h\<close>): the three lookups the file calls, as
  functions from their arguments to what they deliver. A call is recorded in the log of
  the \<open>World\<close>. The lookup of an airport passes no region: the log shows the empty string.
\<close>

record 'p MapQuery =
  getMapObjectByIdent :: "MapObjectTypes \<Rightarrow> string \<Rightarrow> string \<Rightarrow> 'p MapSearchResult"
  getParkingByNameAndNumber :: "int \<Rightarrow> string \<Rightarrow> int \<Rightarrow> MapParking list"
  getStartByNameAndPos :: "int \<Rightarrow> string \<Rightarrow> 'p \<Rightarrow> 'p MapStart"

datatype 'p QueryCall =
  GetMapObjectByIdent MapObjectTypes string string
| GetParkingByNameAndNumber int string int
| GetStartByNameAndPos int string 'p

record 'p World =
  flightplan :: "'p Flightplan"
  queries :: "'p QueryCall list"

subsection \<open>\<open>findMapObject\<close>: the nearest navaid of a list\<close>

text \<open>
  The body of the range-based \<open>for\<close> loop: the pair is the loop's state
  \<open>(distance, nearest)\<close>, the function \<open>d\<close> is \<open>pos.distanceSimpleTo(obj.position)\<close>.
\<close>

fun findMapObject_loop :: "('t \<Rightarrow> float) \<Rightarrow> 't list \<Rightarrow> float \<times> 't \<Rightarrow> float \<times> 't" where
  "findMapObject_loop d [] acc = acc"
| "findMapObject_loop d (obj # rest) (distance, nearest) =
     (if d obj < distance then findMapObject_loop d rest (d obj, obj)
      else findMapObject_loop d rest (distance, nearest))"

text \<open>
  The template \<open>findMapObject<TYPE>\<close>. \<open>positionOf\<close> reads the member \<open>obj.position\<close>
  of \<open>TYPE\<close>, \<open>dflt\<close> is the default-constructed \<open>TYPE()\<close>, \<open>objs\<close> is the argument
  \<open>waypoints\<close>. The result is the returned object and the out-parameter \<open>found\<close>.
\<close>

definition findMapObject ::
    "'p Env \<Rightarrow> ('t \<Rightarrow> 'p) \<Rightarrow> 't \<Rightarrow> 't list \<Rightarrow> 'p \<Rightarrow> 't \<times> bool" where
  "findMapObject E positionOf dflt objs pos =
     (case objs of
        [] \<Rightarrow> (dflt, False)
      | first # _ \<Rightarrow>
          (if length objs > 1
           then snd (findMapObject_loop (\<lambda>obj. distanceSimpleTo E pos (positionOf obj))
                       objs (INVALID_DISTANCE_VALUE E, first))
           else first,
           True))"

subsection \<open>Strings and the parking pattern\<close>

text \<open>
  A \<open>QString\<close> is a \<open>string\<close>. \<open>isSpace\<close> holds for the ASCII white space that
  \<open>QString::trimmed\<close> removes from both ends; \<open>toUpper\<close> maps the ASCII letters, the only
  letters the pattern below captures.
\<close>

definition isSpace :: "char \<Rightarrow> bool" where
  "isSpace c = (c \<in> set [CHR '' '', CHR 0x09, CHR 0x0A, CHR 0x0B, CHR 0x0C, CHR 0x0D])"

definition trimmed :: "string \<Rightarrow> string" where
  "trimmed s = rev (dropWhile isSpace (rev (dropWhile isSpace s)))"

definition toUpper :: "string \<Rightarrow> string" where
  "toUpper s =
     map (\<lambda>c. case map_of (zip ''abcdefghijklmnopqrstuvwxyz'' ''ABCDEFGHIJKLMNOPQRSTUVWXYZ'') c of
                Some u \<Rightarrow> u | None \<Rightarrow> c) s"

text \<open>\<open>replace(" ", "_")\<close>: both strings are one character long.\<close>

definition replace :: "char \<Rightarrow> char \<Rightarrow> string \<Rightarrow> string" where
  "replace before after s = map (\<lambda>c. if c = before then after else c) s"

definition isDigit :: "char \<Rightarrow> bool" where
  "isDigit c = (c \<in> set ''0123456789'')"

definition isNameChar :: "char \<Rightarrow> bool" where
  "isNameChar c = (c \<in> set ''ABCDEFGHIJKLMNOPQRSTUVWXYZabcdefghijklmnopqrstuvwxyz_ '')"

definition digitValue :: "char \<Rightarrow> nat" where
  "digitValue c = (case map_of (zip ''0123456789'' [0, 1, 2, 3, 4, 5, 6, 7, 8, 9]) c of
        Some v \<Rightarrow> v | None \<Rightarrow> 0)"

text \<open>
  \<open>QString::toInt\<close> on a string of decimal digits, which is all that the second group of
  the pattern captures: the number, and 0 when the string is empty or the number does not
  fit an \<open>int\<close>.
\<close>

definition toInt :: "string \<Rightarrow> int" where
  "toInt s =
     (let n = foldl (\<lambda>a c. 10 * a + digitValue c) 0 s
      in if s \<noteq> [] \<and> list_all isDigit s \<and> n \<le> 2147483647 then int n else 0)"

text \<open>\<open>QString::number\<close> of a positive \<open>int\<close>: its decimal digits.\<close>

fun QString_number_nat :: "nat \<Rightarrow> string" where
  "QString_number_nat n =
     (if n < 10 then [''0123456789'' ! n]
      else QString_number_nat (n div 10) @ [''0123456789'' ! (n mod 10)])"

declare QString_number_nat.simps [simp del]

definition QString_number :: "int \<Rightarrow> string" where
  "QString_number i = (if i < 0 then CHR ''-'' # QString_number_nat (nat (- i)) else QString_number_nat (nat i))"

text \<open>
  \<open>PARKING_TO_NAME_AND_NUM\<close>, the regular expression \<open>([A-Za-z_ ]*)([0-9]+)\<close>, and
  \<open>QRegularExpression::match\<close>: the leftmost match, searched from every start position in
  turn. At one start position the first group is greedy and takes the longest run of name
  characters; a shorter run would leave a name character where the second group needs a
  digit, so the match at that position succeeds exactly when a digit follows the longest
  run. The result is the pair of the two captured groups.
\<close>

definition PARKING_TO_NAME_AND_NUM_here :: "string \<Rightarrow> (string \<times> string) option" where
  "PARKING_TO_NAME_AND_NUM_here s =
     (let g1 = takeWhile isNameChar s; g2 = takeWhile isDigit (dropWhile isNameChar s)
      in if g2 \<noteq> [] then Some (g1, g2) else None)"

fun PARKING_TO_NAME_AND_NUM_match :: "string \<Rightarrow> (string \<times> string) option" where
  "PARKING_TO_NAME_AND_NUM_match [] = None"
| "PARKING_TO_NAME_AND_NUM_match (c # cs) =
     (case PARKING_TO_NAME_AND_NUM_here (c # cs) of
        Some m \<Rightarrow> Some m
      | None \<Rightarrow> PARKING_TO_NAME_AND_NUM_match cs)"

text \<open>\<open>QRegularExpressionMatch::captured\<close>: a group of the match, the null string if there is none.\<close>

definition captured :: "nat \<Rightarrow> (string \<times> string) option \<Rightarrow> string" where
  "captured n m = (case m of None \<Rightarrow> [] | Some (g1, g2) \<Rightarrow> if n = 1 then g1 else if n = 2 then g2 else [])"

subsection \<open>Kinds of legs and positions\<close>

text \<open>
  Modelled from the spec: \<open>isAnyApproach()\<close> and \<open>isRoute()\<close> are defined in
  \<open>routemapobject.h\<close>, which is not among the sources. The spec calls a leg whose kind is
  ProcedureLeg a procedure leg, and every other leg a route leg.
\<close>

definition isAnyApproach :: "'p RouteMapObject \<Rightarrow> bool" where
  "isAnyApproach l = (case type l of PROCEDURE _ \<Rightarrow> True | _ \<Rightarrow> False)"

definition isRoute :: "'p RouteMapObject \<Rightarrow> bool" where
  "isRoute l = (\<not> isAnyApproach l)"

definition curEntry :: "'p Env \<Rightarrow> 'p Flightplan \<Rightarrow> 'p RouteMapObject \<Rightarrow> Error + 'p FlightplanEntry" where
  "curEntry E fp l =
     (if isRoute l then QList_at (entries fp) (index l) else Inr (EMPTY_FLIGHTPLAN_ENTRY E))"

definition getPosition :: "'p Env \<Rightarrow> 'p Flightplan \<Rightarrow> 'p RouteMapObject \<Rightarrow> Error + 'p" where
  "getPosition E fp l =
     (if isAnyApproach l then Inr (pos2 (line (approachLeg l)))
      else if type l = INVALID then
        (case curEntry E fp l of
           Inl e \<Rightarrow> Inl e
         | Inr entry \<Rightarrow>
             Inr (if posIsValid E (FlightplanEntry.position entry) then FlightplanEntry.position entry
                  else EMPTY_POS E))
      else if MapAirport.isValid (airport l) then Inr (MapAirport.position (airport l))
      else if MapVor.isValid (vor l) then Inr (MapVor.position (vor l))
      else if MapNdb.isValid (ndb l) then Inr (MapNdb.position (ndb l))
      else if MapWaypoint.isValid (waypoint l) then Inr (MapWaypoint.position (waypoint l))
      else if MapIls.isValid (RouteMapObject.ils l) then Inr (MapIls.position (RouteMapObject.ils l))
      else if MapRunwayEnd.isValid (runwayEnd l) then Inr (MapRunwayEnd.position (runwayEnd l))
      else
        (case curEntry E fp l of
           Inl e \<Rightarrow> Inl e
         | Inr entry \<Rightarrow>
             Inr (if waypointType entry = WaypointType.USER then FlightplanEntry.position entry
                  else EMPTY_POS E)))"

subsection \<open>Magnetic variation, distance and course\<close>

definition updateMagvar :: "'p RouteMapObject \<Rightarrow> 'p RouteMapObject" where
  "updateMagvar l =
     l\<lparr>RouteMapObject.magvar :=
        (if isAnyApproach l then MapApproachLeg.magvar (approachLeg l)
         else if MapAirport.isValid (airport l) then MapAirport.magvar (airport l)
         else if MapVor.isValid (vor l) then MapVor.magvar (vor l)
         else if MapNdb.isValid (ndb l) then MapNdb.magvar (ndb l)
         else if MapWaypoint.isValid (waypoint l) then MapWaypoint.magvar (waypoint l)
         else 0)\<rparr>"

text \<open>
  \<open>updateDistanceAndCourse\<close>. The predecessor is another leg of the same route, or
  \<open>None\<close> for the null pointer; its position is read from the same flight plan.
\<close>

definition updateDistanceAndCourse ::
    "'p Env \<Rightarrow> 'p Flightplan \<Rightarrow> int \<Rightarrow> 'p RouteMapObject option \<Rightarrow> 'p RouteMapObject
      \<Rightarrow> Error + 'p RouteMapObject" where
  "updateDistanceAndCourse E fp entryIndex predRouteMapObj l0 =
     (let l = l0\<lparr>index := entryIndex\<rparr>; leg = approachLeg l in
      if isAnyApproach l then
        (if predRouteMapObj \<noteq> None \<and> isRoute (the predRouteMapObj) \<and> lineIsPoint E (line leg) then
           (case getPosition E fp (the predRouteMapObj) of
              Inl e \<Rightarrow> Inl e
            | Inr prevPos \<Rightarrow>
                Inr (l\<lparr>courseTo := normalizeCourse E (angleDegTo E prevPos (pos1 (line leg))),
                       courseRhumbTo := normalizeCourse E (angleDegToRhumb E prevPos (pos1 (line leg))),
                       distanceTo := meterToNm E (distanceMeterTo E (pos1 (line leg)) prevPos),
                       distanceToRhumb := meterToNm E (distanceMeterToRhumb E (pos1 (line leg)) prevPos),
                       RouteMapObject.geometry := MapApproachLeg.geometry leg\<rparr>))
         else
           Inr (l\<lparr>courseTo := calculatedTrueCourse leg,
                  courseRhumbTo := calculatedTrueCourse leg,
                  distanceTo := calculatedDistance leg,
                  distanceToRhumb := calculatedDistance leg,
                  RouteMapObject.geometry := MapApproachLeg.geometry leg\<rparr>))
      else if predRouteMapObj \<noteq> None then
        (case getPosition E fp (the predRouteMapObj) of
           Inl e \<Rightarrow> Inl e
         | Inr prevPos \<Rightarrow>
             (case getPosition E fp l of
                Inl e \<Rightarrow> Inl e
              | Inr thisPos \<Rightarrow>
                  Inr (l\<lparr>distanceTo := meterToNm E (distanceMeterTo E thisPos prevPos),
                         distanceToRhumb := meterToNm E (distanceMeterToRhumb E thisPos prevPos),
                         courseTo := normalizeCourse E (angleDegTo E prevPos thisPos),
                         courseRhumbTo := normalizeCourse E (angleDegToRhumb E prevPos thisPos),
                         RouteMapObject.geometry := [prevPos, thisPos]\<rparr>)))
      else
        (case getPosition E fp l of
           Inl e \<Rightarrow> Inl e
         | Inr thisPos \<Rightarrow>
             Inr (l\<lparr>distanceTo := 0, distanceToRhumb := 0, courseTo := 0, courseRhumbTo := 0,
                    RouteMapObject.geometry := [thisPos]\<rparr>)))"

subsection \<open>Creating a leg\<close>

definition createFromAirport ::
    "'p Env \<Rightarrow> 'p Flightplan \<Rightarrow> int \<Rightarrow> 'p MapAirport \<Rightarrow> 'p RouteMapObject option
      \<Rightarrow> 'p RouteMapObject \<Rightarrow> Error + 'p RouteMapObject" where
  "createFromAirport E fp entryIndex newAirport predRouteMapObj l0 =
     (let l = l0\<lparr>index := entryIndex, type := MapObjectTypes.AIRPORT, airport := newAirport\<rparr>;
          l = updateMagvar l
      in case updateDistanceAndCourse E fp entryIndex predRouteMapObj l of
           Inl e \<Rightarrow> Inl e
         | Inr l \<Rightarrow> Inr (l\<lparr>valid := True\<rparr>))"

text \<open>
  \<open>hasWaypoints()\<close> and its siblings are members of \<open>MapSearchResult\<close> in \<open>maptypes.h\<close>;
  they are taken by their names: the list is not empty. So \<open>if(hasWaypoints()) waypoint =
  waypoints.first()\<close> is a case distinction on the list. \<open>first()\<close> of an empty list is
  outside the container.
\<close>

definition QList_first :: "'a list \<Rightarrow> Error + 'a" where
  "QList_first xs = (case xs of [] \<Rightarrow> Inl IndexOutOfRange | x # _ \<Rightarrow> Inr x)"

definition createFromApproachLeg ::
    "'p Env \<Rightarrow> 'p Flightplan \<Rightarrow> int \<Rightarrow> 'p MapApproachLeg list \<Rightarrow> 'p RouteMapObject option
      \<Rightarrow> 'p RouteMapObject \<Rightarrow> Error + 'p RouteMapObject" where
  "createFromApproachLeg E fp entryIndex legs predRouteMapObj l0 =
     (case QList_at legs entryIndex of
        Inl e \<Rightarrow> Inl e
      | Inr leg \<Rightarrow>
          (let l = l0\<lparr>index := entryIndex, approachLeg := leg,
                      RouteMapObject.magvar := MapApproachLeg.magvar leg, type := mapType leg\<rparr>;
               l = (case waypoints (navaids leg) of [] \<Rightarrow> l | x # _ \<Rightarrow> l\<lparr>waypoint := x\<rparr>);
               l = (case vors (navaids leg) of [] \<Rightarrow> l | x # _ \<Rightarrow> l\<lparr>vor := x\<rparr>);
               l = (case ndbs (navaids leg) of [] \<Rightarrow> l | x # _ \<Rightarrow> l\<lparr>ndb := x\<rparr>);
               l = (case MapSearchResult.ils (navaids leg) of [] \<Rightarrow> l | x # _ \<Rightarrow> l\<lparr>RouteMapObject.ils := x\<rparr>);
               l = (case runwayEnds (navaids leg) of [] \<Rightarrow> l | x # _ \<Rightarrow> l\<lparr>runwayEnd := x\<rparr>);
               l = updateMagvar l
           in case updateDistanceAndCourse E fp entryIndex predRouteMapObj l of
                Inl e \<Rightarrow> Inl e
              | Inr l \<Rightarrow> Inr (l\<lparr>valid := True\<rparr>)))"

text \<open>\<open>MAX_WAYPOINT_DISTANCE_METER\<close>: an \<open>int\<close> initialised from \<open>10000.f\<close>.\<close>

definition MAX_WAYPOINT_DISTANCE_METER :: int where
  "MAX_WAYPOINT_DISTANCE_METER = 10000"

text \<open>Writing through the pointer \<open>flightplanEntry\<close>, and the calls recorded in the log.\<close>

definition setEntry :: "int \<Rightarrow> 'p FlightplanEntry \<Rightarrow> 'p World \<Rightarrow> 'p World" where
  "setEntry i entry w =
     w\<lparr>flightplan := (flightplan w)\<lparr>entries := (entries (flightplan w))[nat i := entry]\<rparr>\<rparr>"

definition setDepartureParkingName :: "string \<Rightarrow> 'p World \<Rightarrow> 'p World" where
  "setDepartureParkingName s w = w\<lparr>flightplan := (flightplan w)\<lparr>departureParkingName := s\<rparr>\<rparr>"

definition logged :: "'p QueryCall \<Rightarrow> 'p World \<Rightarrow> 'p World" where
  "logged c w = w\<lparr>queries := queries w @ [c]\<rparr>"

text \<open>The branch \<open>case entry::AIRPORT\<close> of the switch.\<close>

definition resolveAirport ::
    "'p Env \<Rightarrow> 'p MapQuery \<Rightarrow> 'p FlightplanEntry \<Rightarrow> 'p RouteMapObject option
      \<Rightarrow> 'p RouteMapObject \<Rightarrow> 'p World \<Rightarrow> 'p RouteMapObject \<times> 'p World" where
  "resolveAirport E Q flightplanEntry predRouteMapObj l0 w0 =
     (let mapobjectResult = getMapObjectByIdent Q MapObjectTypes.AIRPORT (icaoIdent flightplanEntry) [];
          w = logged (GetMapObjectByIdent MapObjectTypes.AIRPORT (icaoIdent flightplanEntry) []) w0
      in case airports mapobjectResult of
           [] \<Rightarrow> (l0, w)
         | first # _ \<Rightarrow>
             (let l = l0\<lparr>type := MapObjectTypes.AIRPORT, airport := first, valid := True\<rparr>;
                  name' = trimmed (departureParkingName (flightplan w))
              in if name' \<noteq> [] \<and> predRouteMapObj = None then
                   (let match = PARKING_TO_NAME_AND_NUM_match name';
                        parkingName = replace (CHR '' '') (CHR ''_'') (toUpper (trimmed (captured 1 match)))
                    in if parkingName \<noteq> [] then
                         (let number' = toInt (captured 2 match);
                              parkings = getParkingByNameAndNumber Q (MapAirport.db_id (airport l))
                                           (parkingDatabaseName E parkingName) number';
                              w = logged (GetParkingByNameAndNumber (MapAirport.db_id (airport l))
                                           (parkingDatabaseName E parkingName) number') w
                          in case parkings of
                               [] \<Rightarrow> (l, setDepartureParkingName [] w)
                             | p # _ \<Rightarrow>
                                 (l\<lparr>parking := p\<rparr>,
                                  setDepartureParkingName (parkingNameForFlightplan E p) w))
                       else
                         (let l = l\<lparr>start := getStartByNameAndPos Q (MapAirport.db_id (airport l)) name'
                                               (departurePosition (flightplan w))\<rparr>;
                              w = logged (GetStartByNameAndPos (MapAirport.db_id (airport l)) name'
                                           (departurePosition (flightplan w))) w
                          in if \<not> MapStart.isValid (start l) then (l, setDepartureParkingName [] w)
                             else if helipadNumber (start l) > 0 then
                               (l, setDepartureParkingName (QString_number (helipadNumber (start l))) w)
                             else (l, setDepartureParkingName (runwayName (start l)) w)))
                 else (l\<lparr>start := MapStart_default E, parking := MapParking_default E\<rparr>, w)))"

text \<open>The branches \<open>INTERSECTION\<close>, \<open>VOR\<close> and \<open>NDB\<close> of the switch.\<close>

definition resolveWaypoint ::
    "'p Env \<Rightarrow> 'p MapQuery \<Rightarrow> string \<Rightarrow> 'p FlightplanEntry
      \<Rightarrow> 'p RouteMapObject \<Rightarrow> 'p World \<Rightarrow> 'p RouteMapObject \<times> 'p World" where
  "resolveWaypoint E Q region' flightplanEntry l0 w0 =
     (let mapobjectResult = getMapObjectByIdent Q WAYPOINT (icaoIdent flightplanEntry) region';
          w = logged (GetMapObjectByIdent WAYPOINT (icaoIdent flightplanEntry) region') w0;
          (obj, found) = findMapObject E MapWaypoint.position (MapWaypoint_default E)
                           (waypoints mapobjectResult) (FlightplanEntry.position flightplanEntry)
      in if found then
           (let l = l0\<lparr>type := WAYPOINT, waypoint := obj\<rparr>;
                l = l\<lparr>valid := (distanceMeterTo E (MapWaypoint.position (waypoint l))
                                   (FlightplanEntry.position flightplanEntry)
                                 < real_of_int MAX_WAYPOINT_DISTANCE_METER)\<rparr>
            in if valid l then
                 (l, setEntry (index l)
                       (flightplanEntry\<lparr>icaoRegion := MapWaypoint.region (waypoint l),
                                         icaoIdent := MapWaypoint.ident (waypoint l),
                                         FlightplanEntry.position := MapWaypoint.position (waypoint l)\<rparr>) w)
               else (l, w))
         else (l0, w))"

definition resolveVor ::
    "'p Env \<Rightarrow> 'p MapQuery \<Rightarrow> string \<Rightarrow> 'p FlightplanEntry
      \<Rightarrow> 'p RouteMapObject \<Rightarrow> 'p World \<Rightarrow> 'p RouteMapObject \<times> 'p World" where
  "resolveVor E Q region' flightplanEntry l0 w0 =
     (let mapobjectResult = getMapObjectByIdent Q MapObjectTypes.VOR (icaoIdent flightplanEntry) region';
          w = logged (GetMapObjectByIdent MapObjectTypes.VOR (icaoIdent flightplanEntry) region') w0;
          (obj, found) = findMapObject E MapVor.position (MapVor_default E)
                           (vors mapobjectResult) (FlightplanEntry.position flightplanEntry)
      in if found then
           (let l = l0\<lparr>type := MapObjectTypes.VOR, vor := obj\<rparr>;
                l = l\<lparr>valid := (distanceMeterTo E (MapVor.position (vor l))
                                   (FlightplanEntry.position flightplanEntry)
                                 < real_of_int MAX_WAYPOINT_DISTANCE_METER)\<rparr>
            in if valid l then
                 (l, setEntry (index l)
                       (flightplanEntry\<lparr>icaoRegion := MapVor.region (vor l),
                                         icaoIdent := MapVor.ident (vor l),
                                         FlightplanEntry.position := MapVor.position (vor l)\<rparr>) w)
               else (l, w))
         else (l0, w))"

definition resolveNdb ::
    "'p Env \<Rightarrow> 'p MapQuery \<Rightarrow> string \<Rightarrow> 'p FlightplanEntry
      \<Rightarrow> 'p RouteMapObject \<Rightarrow> 'p World \<Rightarrow> 'p RouteMapObject \<times> 'p World" where
  "resolveNdb E Q region' flightplanEntry l0 w0 =
     (let mapobjectResult = getMapObjectByIdent Q MapObjectTypes.NDB (icaoIdent flightplanEntry) region';
          w = logged (GetMapObjectByIdent MapObjectTypes.NDB (icaoIdent flightplanEntry) region') w0;
          (obj, found) = findMapObject E MapNdb.position (MapNdb_default E)
                           (ndbs mapobjectResult) (FlightplanEntry.position flightplanEntry)
      in if found then
           (let l = l0\<lparr>type := MapObjectTypes.NDB, ndb := obj\<rparr>;
                l = l\<lparr>valid := (distanceMeterTo E (MapNdb.position (ndb l))
                                   (FlightplanEntry.position flightplanEntry)
                                 < real_of_int MAX_WAYPOINT_DISTANCE_METER)\<rparr>
            in if valid l then
                 (l, setEntry (index l)
                       (flightplanEntry\<lparr>icaoRegion := MapNdb.region (ndb l),
                                         icaoIdent := MapNdb.ident (ndb l),
                                         FlightplanEntry.position := MapNdb.position (ndb l)\<rparr>) w)
               else (l, w))
         else (l0, w))"

text \<open>The branch \<open>case entry::USER\<close>.\<close>

definition resolveUser ::
    "'p FlightplanEntry \<Rightarrow> 'p RouteMapObject \<Rightarrow> 'p World \<Rightarrow> 'p RouteMapObject \<times> 'p World" where
  "resolveUser flightplanEntry l0 w0 =
     (l0\<lparr>valid := True, type := MapObjectTypes.USER\<rparr>,
      setEntry (index l0) (flightplanEntry\<lparr>icaoIdent := [], icaoRegion := []\<rparr>) w0)"

text \<open>
  \<open>createFromDatabaseByEntry\<close>: the leg and the world before, the database \<open>Q\<close>; the leg
  and the world after, or the error of an index outside the flight plan.
\<close>

definition createFromDatabaseByEntry ::
    "'p Env \<Rightarrow> 'p MapQuery \<Rightarrow> int \<Rightarrow> 'p RouteMapObject option
      \<Rightarrow> 'p RouteMapObject \<Rightarrow> 'p World \<Rightarrow> Error + ('p RouteMapObject \<times> 'p World)" where
  "createFromDatabaseByEntry E Q entryIndex predRouteMapObj l0 w0 =
     (let l = l0\<lparr>index := entryIndex\<rparr> in
      case QList_at (entries (flightplan w0)) (index l) of
        Inl e \<Rightarrow> Inl e
      | Inr flightplanEntry \<Rightarrow>
          (let region' = icaoRegion flightplanEntry;
               region' = (if region' = ''KK'' then [] else region');
               (l, w) =
                 (case waypointType flightplanEntry of
                    UNKNOWN \<Rightarrow> (l, w0)
                  | WaypointType.AIRPORT \<Rightarrow> resolveAirport E Q flightplanEntry predRouteMapObj l w0
                  | INTERSECTION \<Rightarrow> resolveWaypoint E Q region' flightplanEntry l w0
                  | WaypointType.VOR \<Rightarrow> resolveVor E Q region' flightplanEntry l w0
                  | WaypointType.NDB \<Rightarrow> resolveNdb E Q region' flightplanEntry l w0
                  | WaypointType.USER \<Rightarrow> resolveUser flightplanEntry l w0);
               l = (if \<not> valid l then l\<lparr>type := INVALID\<rparr> else l);
               l = updateMagvar l
           in case updateDistanceAndCourse E (flightplan w) entryIndex predRouteMapObj l of
                Inl e \<Rightarrow> Inl e
              | Inr l \<Rightarrow> Inr (l, w)))"

subsection \<open>Magnetic variation of legs without a navaid\<close>

text \<open>
  \<open>updateInvalidMagvar\<close> writes the member \<open>magvar\<close> of \<open>*this\<close> and then reads the legs
  of the route list, of which \<open>*this\<close> may be one. The legs therefore live in a store:
  an address is a number, the route list is the list of the addresses of its legs, and
  \<open>this\<close> is an address. \<open>getMagvar()\<close> reads the member \<open>magvar\<close>.
\<close>

type_synonym addr = nat

type_synonym 'p Store = "addr \<Rightarrow> 'p RouteMapObject"

text \<open>The first loop: \<open>i\<close> runs down to 0. The result is the value of \<open>magvarnext\<close> after the loop.\<close>

function updateInvalidMagvar_down ::
    "'p Env \<Rightarrow> 'p Store \<Rightarrow> addr list \<Rightarrow> int \<Rightarrow> float \<Rightarrow> Error + float" where
  "updateInvalidMagvar_down E st routeList i magvarnext =
     (if i \<ge> 0 then
        (case QList_at routeList i of
           Inl e \<Rightarrow> Inl e
         | Inr a \<Rightarrow>
             if almostNotEqual E (RouteMapObject.magvar (st a)) 0
             then Inr (RouteMapObject.magvar (st a))
             else updateInvalidMagvar_down E st routeList (i - 1) magvarnext)
      else Inr magvarnext)"
  by pat_completeness auto
termination
  by (relation "measure (\<lambda>(E, st, routeList, i, magvarnext). nat (i + 1))") auto

text \<open>The second loop: \<open>i\<close> runs up to the size of the list. The result is \<open>magvarprev\<close>.\<close>

function updateInvalidMagvar_up ::
    "'p Env \<Rightarrow> 'p Store \<Rightarrow> addr list \<Rightarrow> int \<Rightarrow> float \<Rightarrow> Error + float" where
  "updateInvalidMagvar_up E st routeList i magvarprev =
     (if i < int (length routeList) then
        (case QList_at routeList i of
           Inl e \<Rightarrow> Inl e
         | Inr a \<Rightarrow>
             if almostNotEqual E (RouteMapObject.magvar (st a)) 0
             then Inr (RouteMapObject.magvar (st a))
             else updateInvalidMagvar_up E st routeList (i + 1) magvarprev)
      else Inr magvarprev)"
  by pat_completeness auto
termination
  by (relation "measure (\<lambda>(E, st, routeList, i, magvarprev). nat (int (length routeList) - i))") auto

declare updateInvalidMagvar_down.simps [simp del]
declare updateInvalidMagvar_up.simps [simp del]

definition setMagvar :: "addr \<Rightarrow> float \<Rightarrow> 'p Store \<Rightarrow> 'p Store" where
  "setMagvar this v st = st(this := (st this)\<lparr>RouteMapObject.magvar := v\<rparr>)"

definition updateInvalidMagvar ::
    "'p Env \<Rightarrow> int \<Rightarrow> addr list \<Rightarrow> addr \<Rightarrow> 'p Store \<Rightarrow> Error + 'p Store" where
  "updateInvalidMagvar E entryIndex routeList this st0 =
     (if type (st0 this) = MapObjectTypes.USER \<or> type (st0 this) = INVALID then
        (let st = setMagvar this 0 st0;
             startIndex = min entryIndex (int (length routeList) - 1)
         in case updateInvalidMagvar_down E st routeList startIndex 0 of
              Inl e \<Rightarrow> Inl e
            | Inr magvarnext \<Rightarrow>
                (case updateInvalidMagvar_up E st routeList startIndex 0 of
                   Inl e \<Rightarrow> Inl e
                 | Inr magvarprev \<Rightarrow>
                     Inr (if \<bar>magvarnext\<bar> > 0 \<and> \<bar>magvarprev\<bar> > 0
                          then setMagvar this ((magvarnext + magvarprev) / 2) st
                          else if \<bar>magvarnext\<bar> > 0 then setMagvar this magvarnext st
                          else if \<bar>magvarprev\<bar> > 0 then setMagvar this magvarprev st
                          else st)))
      else Inr st0)"

subsection \<open>Accessors\<close>

definition getId :: "'p RouteMapObject \<Rightarrow> int" where
  "getId l =
     (if type l = INVALID then - 1
      else if MapWaypoint.isValid (waypoint l) then MapWaypoint.db_id (waypoint l)
      else if MapVor.isValid (vor l) then MapVor.db_id (vor l)
      else if MapNdb.isValid (ndb l) then MapNdb.db_id (ndb l)
      else if MapAirport.isValid (airport l) then MapAirport.db_id (airport l)
      else if MapIls.isValid (RouteMapObject.ils l) then MapIls.db_id (RouteMapObject.ils l)
      else - 1)"

definition getRange :: "'p RouteMapObject \<Rightarrow> int" where
  "getRange l =
     (if type l = INVALID then - 1
      else if MapVor.isValid (vor l) then MapVor.range (vor l)
      else if MapNdb.isValid (ndb l) then MapNdb.range (ndb l)
      else if MapIls.isValid (RouteMapObject.ils l) then MapIls.range (RouteMapObject.ils l)
      else - 1)"

definition getIdent :: "'p Env \<Rightarrow> 'p Flightplan \<Rightarrow> 'p RouteMapObject \<Rightarrow> Error + string" where
  "getIdent E fp l =
     (if MapAirport.isValid (airport l) then Inr (MapAirport.ident (airport l))
      else if MapVor.isValid (vor l) then Inr (MapVor.ident (vor l))
      else if MapNdb.isValid (ndb l) then Inr (MapNdb.ident (ndb l))
      else if MapWaypoint.isValid (waypoint l) then Inr (MapWaypoint.ident (waypoint l))
      else if MapIls.isValid (RouteMapObject.ils l) then Inr (MapIls.ident (RouteMapObject.ils l))
      else if MapRunwayEnd.isValid (runwayEnd l) then Inr (''RW'' @ MapRunwayEnd.name (runwayEnd l))
      else if displayText (approachLeg l) \<noteq> [] then QList_first (displayText (approachLeg l))
      else if type l = INVALID then
        (case curEntry E fp l of Inl e \<Rightarrow> Inl e | Inr entry \<Rightarrow> Inr (icaoIdent entry))
      else
        (case curEntry E fp l of
           Inl e \<Rightarrow> Inl e
         | Inr entry \<Rightarrow>
             Inr (if waypointType entry = WaypointType.USER then waypointId entry
                  else if waypointType entry = UNKNOWN then ''Unknown Waypoint Type''
                  else [])))"

definition getRegion :: "'p RouteMapObject \<Rightarrow> string" where
  "getRegion l =
     (if MapVor.isValid (vor l) then MapVor.region (vor l)
      else if MapNdb.isValid (ndb l) then MapNdb.region (ndb l)
      else if MapWaypoint.isValid (waypoint l) then MapWaypoint.region (waypoint l)
      else [])"

definition getName :: "'p RouteMapObject \<Rightarrow> string" where
  "getName l =
     (if type l = INVALID then []
      else if MapAirport.isValid (airport l) then MapAirport.name (airport l)
      else if MapVor.isValid (vor l) then MapVor.name (vor l)
      else if MapNdb.isValid (ndb l) then MapNdb.name (ndb l)
      else if MapIls.isValid (RouteMapObject.ils l) then MapIls.name (RouteMapObject.ils l)
      else [])"

definition getFrequency :: "'p RouteMapObject \<Rightarrow> int" where
  "getFrequency l =
     (if type l = INVALID then 0
      else if MapVor.isValid (vor l) then MapVor.frequency (vor l)
      else if MapNdb.isValid (ndb l) then MapNdb.frequency (ndb l)
      else if MapIls.isValid (RouteMapObject.ils l) then MapIls.frequency (RouteMapObject.ils l)
      else 0)"

subsection \<open>Priority orders\<close>


text \<open>
  A priority order, as the spec words it: the value of the first candidate that is valid,
  and a fallback when none is.
\<close>

fun firstValid :: "(bool \<times> 'a) list \<Rightarrow> 'a \<Rightarrow> 'a" where
  "firstValid [] fallback = fallback"
| "firstValid ((ok, v) # rest) fallback = (if ok then v else firstValid rest fallback)"

subsection \<open>Failed resolutions, in the words of the spec\<close>

text \<open>The region that the lookup of a navaid passes: the sentinel \<open>KK\<close> counts as empty.\<close>

definition queryRegion :: "'p FlightplanEntry \<Rightarrow> string" where
  "queryRegion entry = (if icaoRegion entry = ''KK'' then [] else icaoRegion entry)"

text \<open>The database lookup for the entry returns no candidates.\<close>

definition noCandidates :: "'p MapQuery \<Rightarrow> 'p FlightplanEntry \<Rightarrow> bool" where
  "noCandidates Q entry =
     (case waypointType entry of
        WaypointType.AIRPORT \<Rightarrow>
          airports (getMapObjectByIdent Q MapObjectTypes.AIRPORT (icaoIdent entry) []) = []
      | INTERSECTION \<Rightarrow>
          waypoints (getMapObjectByIdent Q WAYPOINT (icaoIdent entry) (queryRegion entry)) = []
      | WaypointType.VOR \<Rightarrow>
          vors (getMapObjectByIdent Q MapObjectTypes.VOR (icaoIdent entry) (queryRegion entry)) = []
      | WaypointType.NDB \<Rightarrow>
          ndbs (getMapObjectByIdent Q MapObjectTypes.NDB (icaoIdent entry) (queryRegion entry)) = []
      | _ \<Rightarrow> False)"

text \<open>The nearest candidate is farther than the tolerance of 10000 meters from the entry.\<close>

definition bestMatchExceedsTolerance :: "'p Env \<Rightarrow> 'p MapQuery \<Rightarrow> 'p FlightplanEntry \<Rightarrow> bool" where
  "bestMatchExceedsTolerance E Q entry =
     (case waypointType entry of
        INTERSECTION \<Rightarrow>
          (case findMapObject E MapWaypoint.position (MapWaypoint_default E)
                  (waypoints (getMapObjectByIdent Q WAYPOINT (icaoIdent entry) (queryRegion entry)))
                  (FlightplanEntry.position entry) of
             (obj, found) \<Rightarrow>
               found \<and> distanceMeterTo E (MapWaypoint.position obj) (FlightplanEntry.position entry) > 10000)
      | WaypointType.VOR \<Rightarrow>
          (case findMapObject E MapVor.position (MapVor_default E)
                  (vors (getMapObjectByIdent Q MapObjectTypes.VOR (icaoIdent entry) (queryRegion entry)))
                  (FlightplanEntry.position entry) of
             (obj, found) \<Rightarrow>
               found \<and> distanceMeterTo E (MapVor.position obj) (FlightplanEntry.position entry) > 10000)
      | WaypointType.NDB \<Rightarrow>
          (case findMapObject E MapNdb.position (MapNdb_default E)
                  (ndbs (getMapObjectByIdent Q MapObjectTypes.NDB (icaoIdent entry) (queryRegion entry)))
                  (FlightplanEntry.position entry) of
             (obj, found) \<Rightarrow>
               found \<and> distanceMeterTo E (MapNdb.position obj) (FlightplanEntry.position entry) > 10000)
      | _ \<Rightarrow> False)"

section \<open>Example data\<close>

text \<open>
  A small concrete world for the instances below: positions are points of the integer
  grid, the simple distance is the sum of the coordinate differences.
\<close>

definition exampleEnv :: "(int \<times> int) Env" where
  "exampleEnv = \<lparr>
     distanceSimpleTo = (\<lambda>a b. real_of_int (\<bar>fst a - fst b\<bar> + \<bar>snd a - snd b\<bar>)),
     distanceMeterTo = (\<lambda>a b. 1000 * real_of_int (\<bar>fst a - fst b\<bar> + \<bar>snd a - snd b\<bar>)),
     distanceMeterToRhumb = (\<lambda>a b. 1000 * real_of_int (\<bar>fst a - fst b\<bar> + \<bar>snd a - snd b\<bar>)),
     angleDegTo = (\<lambda>a b. 90 * real_of_int (fst b - fst a)),
     angleDegToRhumb = (\<lambda>a b. 90 * real_of_int (fst b - fst a)),
     normalizeCourse = (\<lambda>c. c - 360 * real_of_int \<lfloor>c / 360\<rfloor>),
     meterToNm = (\<lambda>m. m / 1852),
     posIsValid = (\<lambda>p. p \<noteq> (1000, 1000)),
     EMPTY_POS = (1000, 1000),
     lineIsPoint = (\<lambda>l. pos1 l = pos2 l),
     almostNotEqual = (\<lambda>a b. \<bar>a - b\<bar> \<ge> 1 / 10000000),
     INVALID_DISTANCE_VALUE = 340282346638528859811704183484516925440,
     parkingDatabaseName = (\<lambda>s. s),
     parkingNameForFlightplan = (\<lambda>p. MapParking.name p),
     EMPTY_FLIGHTPLAN_ENTRY = \<lparr>waypointType = UNKNOWN, icaoIdent = [], icaoRegion = [],
       FlightplanEntry.position = (1000, 1000), airway = [], waypointId = []\<rparr>,
     MapWaypoint_default = \<lparr>MapWaypoint.db_id = -1, MapWaypoint.ident = [], MapWaypoint.region = [],
       MapWaypoint.position = (1000, 1000), MapWaypoint.magvar = 0, MapWaypoint.isValid = False\<rparr>,
     MapVor_default = \<lparr>MapVor.db_id = -1, MapVor.ident = [], MapVor.region = [], MapVor.name = [],
       MapVor.position = (1000, 1000), MapVor.magvar = 0, MapVor.range = 0, MapVor.frequency = 0,
       MapVor.isValid = False\<rparr>,
     MapNdb_default = \<lparr>MapNdb.db_id = -1, MapNdb.ident = [], MapNdb.region = [], MapNdb.name = [],
       MapNdb.position = (1000, 1000), MapNdb.magvar = 0, MapNdb.range = 0, MapNdb.frequency = 0,
       MapNdb.isValid = False\<rparr>,
     MapStart_default = \<lparr>helipadNumber = 0, runwayName = [], MapStart.isValid = False\<rparr>,
     MapParking_default = \<lparr>MapParking.name = [], number = -1\<rparr>\<rparr>"

definition exampleWaypoint :: "int \<Rightarrow> string \<Rightarrow> int \<times> int \<Rightarrow> (int \<times> int) MapWaypoint" where
  "exampleWaypoint i r p = \<lparr>MapWaypoint.db_id = i, MapWaypoint.ident = ''ABC'', MapWaypoint.region = r,
     MapWaypoint.position = p, MapWaypoint.magvar = 2, MapWaypoint.isValid = True\<rparr>"

definition exampleAirport :: "int \<Rightarrow> string \<Rightarrow> int \<times> int \<Rightarrow> bool \<Rightarrow> (int \<times> int) MapAirport" where
  "exampleAirport i s p v = \<lparr>MapAirport.db_id = i, MapAirport.ident = s, MapAirport.name = ''Airport'',
     MapAirport.position = p, MapAirport.magvar = 1, MapAirport.isValid = v\<rparr>"

definition exampleVor :: "int \<Rightarrow> string \<Rightarrow> int \<times> int \<Rightarrow> (int \<times> int) MapVor" where
  "exampleVor i s p = \<lparr>MapVor.db_id = i, MapVor.ident = s, MapVor.region = ''K1'', MapVor.name = ''Vor'',
     MapVor.position = p, MapVor.magvar = 3, MapVor.range = 130, MapVor.frequency = 11630,
     MapVor.isValid = True\<rparr>"

definition exampleIls :: "(int \<times> int) MapIls" where
  "exampleIls = \<lparr>MapIls.db_id = - 1, MapIls.ident = [], MapIls.name = [], MapIls.position = (1000, 1000),
     MapIls.range = 0, MapIls.frequency = 0, MapIls.isValid = False\<rparr>"

definition exampleRunwayEnd :: "(int \<times> int) MapRunwayEnd" where
  "exampleRunwayEnd = \<lparr>MapRunwayEnd.name = [], MapRunwayEnd.position = (1000, 1000),
     MapRunwayEnd.isValid = False\<rparr>"

definition exampleResult :: "(int \<times> int) MapSearchResult" where
  "exampleResult = \<lparr>airports = [], waypoints = [], vors = [], ndbs = [], MapSearchResult.ils = [],
     runwayEnds = []\<rparr>"

definition exampleApproachLeg :: "float \<Rightarrow> (int \<times> int) MapApproachLeg" where
  "exampleApproachLeg course = \<lparr>MapApproachLeg.magvar = 4, mapType = PROCEDURE 0,
     navaids = exampleResult\<lparr>waypoints := [exampleWaypoint 7 ''K1'' (2, 2)], vors := [exampleVor 5 ''VOR'' (2, 2)]\<rparr>,
     line = \<lparr>pos1 = (1, 1), pos2 = (2, 2)\<rparr>, calculatedTrueCourse = course, calculatedDistance = 12,
     MapApproachLeg.geometry = [(1, 1), (2, 2)], displayText = []\<rparr>"

text \<open>A leg as no operation has touched it yet: no payload is valid, the leg is not valid.\<close>

definition exampleLeg :: "(int \<times> int) RouteMapObject" where
  "exampleLeg = \<lparr>index = 0, type = NONE, airport = exampleAirport (- 1) [] (1000, 1000) False,
     parking = MapParking_default exampleEnv, start = MapStart_default exampleEnv,
     vor = MapVor_default exampleEnv, ndb = MapNdb_default exampleEnv, RouteMapObject.ils = exampleIls,
     runwayEnd = exampleRunwayEnd, waypoint = MapWaypoint_default exampleEnv,
     approachLeg = (exampleApproachLeg 0)\<lparr>mapType := NONE, navaids := exampleResult\<rparr>,
     valid = False, RouteMapObject.magvar = 0, distanceTo = 0, distanceToRhumb = 0, courseTo = 0,
     courseRhumbTo = 0, RouteMapObject.geometry = []\<rparr>"

definition exampleEntry :: "WaypointType \<Rightarrow> string \<Rightarrow> int \<times> int \<Rightarrow> (int \<times> int) FlightplanEntry" where
  "exampleEntry t s p = \<lparr>waypointType = t, icaoIdent = s, icaoRegion = ''KK'',
     FlightplanEntry.position = p, airway = [], waypointId = ''WP1''\<rparr>"

definition exampleFlightplan :: "(int \<times> int) FlightplanEntry list \<Rightarrow> string \<Rightarrow> (int \<times> int) Flightplan" where
  "exampleFlightplan es s = \<lparr>entries = es, departureParkingName = s, departurePosition = (0, 0)\<rparr>"

definition exampleTwoNavaids :: "(int \<times> int) RouteMapObject" where
  "exampleTwoNavaids = exampleLeg\<lparr>type := PROCEDURE 0, vor := exampleVor 5 ''VOR'' (2, 2),
     waypoint := exampleWaypoint 7 ''K1'' (2, 2), valid := True\<rparr>"

text \<open>
  A database: two waypoints and a VOR named \<open>ABC\<close>, the airport \<open>EDDF\<close>, a parking spot
  \<open>GATE 12\<close> and the runway \<open>04\<close>.
\<close>

definition exampleQuery :: "(int \<times> int) MapQuery" where
  "exampleQuery = \<lparr>
     getMapObjectByIdent = (\<lambda>t s r.
       if s = ''ABC'' then exampleResult\<lparr>
           waypoints := [exampleWaypoint 1 ''K1'' (0, 3), exampleWaypoint 2 ''K2'' (1, 0)],
           vors := [exampleVor 5 ''ABC'' (2, 2)]\<rparr>
       else if s = ''EDDF'' then exampleResult\<lparr>airports := [exampleAirport 10 ''EDDF'' (5, 0) True]\<rparr>
       else exampleResult),
     getParkingByNameAndNumber = (\<lambda>a n k.
       if n = ''GATE'' \<and> k = 12 then [\<lparr>MapParking.name = ''GATE'', number = 12\<rparr>] else []),
     getStartByNameAndPos = (\<lambda>a n p.
       if n = ''04'' then \<lparr>helipadNumber = 0, runwayName = ''04'', MapStart.isValid = True\<rparr>
       else MapStart_default exampleEnv)\<rparr>"

definition exampleWorld :: "(int \<times> int) FlightplanEntry list \<Rightarrow> string \<Rightarrow> (int \<times> int) World" where
  "exampleWorld es s = \<lparr>flightplan = exampleFlightplan es s, queries = []\<rparr>"

text \<open>
  A route of three legs at the addresses 0, 1 and 2: an airport of magnetic variation 5, a
  leg of the given kind and magnetic variation, and a VOR of magnetic variation 9.
\<close>

definition exampleStore :: "MapObjectTypes \<Rightarrow> float \<Rightarrow> (int \<times> int) Store" where
  "exampleStore t v a =
     (if a = 0 then exampleLeg\<lparr>type := MapObjectTypes.AIRPORT, RouteMapObject.magvar := 5\<rparr>
      else if a = 1 then exampleLeg\<lparr>type := t, RouteMapObject.magvar := v\<rparr>
      else exampleLeg\<lparr>type := MapObjectTypes.VOR, RouteMapObject.magvar := 9\<rparr>)"

section \<open>Properties\<close>

subsection \<open>Nearest candidate\<close>

text \<open>
  What the loop computes. If no element is strictly nearer than the starting distance
  the state is unchanged. Otherwise the new nearest object splits the list: everything
  before it is strictly farther, everything after it is at least as far.
\<close>

lemma findMapObject_loop_unchanged:
  "\<forall>x\<in>set xs. \<not> d x < distance \<Longrightarrow> findMapObject_loop d xs (distance, nearest) = (distance, nearest)"
  by (induction xs) auto

lemma findMapObject_loop_found:
  "\<exists>x\<in>set xs. d x < distance \<Longrightarrow>
   \<exists>ys r zs. xs = ys @ r # zs \<and> findMapObject_loop d xs (distance, nearest) = (d r, r) \<and>
     d r < distance \<and> (\<forall>y\<in>set ys. d r < d y) \<and> (\<forall>z\<in>set zs. d r \<le> d z)"
proof (induction xs arbitrary: distance nearest)
  case Nil
  then show ?case by simp
next
  case (Cons x xs)
  show ?case
  proof (cases "d x < distance")
    case nearer: True
    show ?thesis
    proof (cases "\<exists>y\<in>set xs. d y < d x")
      case True
      from Cons.IH [OF True, of x] obtain ys r zs where
        split: "xs = ys @ r # zs" and
        res: "findMapObject_loop d xs (d x, x) = (d r, r)" and
        lt: "d r < d x" and
        before: "\<forall>y\<in>set ys. d r < d y" and
        after: "\<forall>z\<in>set zs. d r \<le> d z"
        by blast
      have "x # xs = (x # ys) @ r # zs" using split by simp
      moreover have "findMapObject_loop d (x # xs) (distance, nearest) = (d r, r)"
        using nearer res by simp
      moreover have "d r < distance" using lt nearer by simp
      moreover have "\<forall>y\<in>set (x # ys). d r < d y" using lt before by simp
      ultimately show ?thesis using after by blast
    next
      case False
      then have "findMapObject_loop d xs (d x, x) = (d x, x)"
        by (intro findMapObject_loop_unchanged) simp
      then have "findMapObject_loop d (x # xs) (distance, nearest) = (d x, x)"
        using nearer by simp
      moreover have "x # xs = [] @ x # xs" by simp
      moreover have "\<forall>z\<in>set xs. d x \<le> d z" using False by (auto simp: not_less)
      ultimately show ?thesis using nearer by (metis empty_iff list.set(1))
    qed
  next
    case farther: False
    with Cons.prems have "\<exists>y\<in>set xs. d y < distance" by auto
    from Cons.IH [OF this, of nearest] obtain ys r zs where
      split: "xs = ys @ r # zs" and
      res: "findMapObject_loop d xs (distance, nearest) = (d r, r)" and
      lt: "d r < distance" and
      before: "\<forall>y\<in>set ys. d r < d y" and
      after: "\<forall>z\<in>set zs. d r \<le> d z"
      by blast
    have "x # xs = (x # ys) @ r # zs" using split by simp
    moreover have "findMapObject_loop d (x # xs) (distance, nearest) = (d r, r)"
      using farther res by simp
    moreover have "\<forall>y\<in>set (x # ys). d r < d y" using lt before farther by auto
    ultimately show ?thesis using lt after by blast
  qed
qed

lemma findMapObject_first_minimum:
  fixes E :: "'p Env" and positionOf :: "'t \<Rightarrow> 'p" and pos :: 'p
  defines "d \<equiv> \<lambda>obj. distanceSimpleTo E pos (positionOf obj)"
  assumes nonempty: "objs \<noteq> []" and bound: "\<forall>obj\<in>set objs. d obj \<le> INVALID_DISTANCE_VALUE E"
  shows "\<exists>ys r zs. objs = ys @ r # zs \<and> findMapObject E positionOf dflt objs pos = (r, True) \<and>
             (\<forall>y\<in>set ys. d r < d y) \<and> (\<forall>z\<in>set zs. d r \<le> d z)"
proof -
  from nonempty obtain first rest where objs: "objs = first # rest" by (cases objs) auto
  let ?inv = "INVALID_DISTANCE_VALUE E"
  show ?thesis
  proof (cases "\<exists>x\<in>set objs. d x < ?inv")
    case True
    from findMapObject_loop_found [OF True, of first] obtain ys r zs where
      split: "objs = ys @ r # zs" and
      res: "findMapObject_loop d objs (?inv, first) = (d r, r)" and
      before: "\<forall>y\<in>set ys. d r < d y" and after: "\<forall>z\<in>set zs. d r \<le> d z"
      by blast
    have "findMapObject E positionOf dflt objs pos = (r, True)"
    proof (cases "length objs > 1")
      case True
      then show ?thesis using res objs by (simp add: findMapObject_def d_def)
    next
      case False
      with objs have "rest = []" by simp
      with objs split have "r = first" by (cases ys) auto
      with False objs show ?thesis by (simp add: findMapObject_def)
    qed
    with split before after show ?thesis by blast
  next
    case False
    then have none: "\<forall>x\<in>set objs. \<not> d x < ?inv" by simp
    with bound have eq: "\<forall>x\<in>set objs. d x = ?inv" by fastforce
    have "findMapObject_loop d objs (?inv, first) = (?inv, first)"
      using none by (rule findMapObject_loop_unchanged)
    then have "findMapObject E positionOf dflt objs pos = (first, True)"
      using objs by (simp add: findMapObject_def d_def)
    moreover have "objs = [] @ first # rest" using objs by simp
    moreover have "\<forall>z\<in>set rest. d first \<le> d z" using eq objs by simp
    ultimately show ?thesis by (metis empty_iff list.set(1))
  qed
qed

text \<open>
  Claim C1. \<open>findMapObject\<close> on an empty list sets \<open>found\<close> to false and returns the
  default-constructed object; on a list of one element it returns that element, whatever
  its distance; on every non-empty list it returns the first element of least simple
  distance to the expected position: every element before it is strictly farther, every
  element after it at least as far. The loop starts from \<open>INVALID_DISTANCE_VALUE\<close>, the
  largest value a distance can take, which is the hypothesis of the third part.
\<close>

theorem findMapObject_nearest:
  "findMapObject E positionOf dflt [] pos = (dflt, False) \<and>
   findMapObject E positionOf dflt [w] pos = (w, True) \<and>
   (objs \<noteq> [] \<and>
    (\<forall>obj\<in>set objs. distanceSimpleTo E pos (positionOf obj) \<le> INVALID_DISTANCE_VALUE E) \<longrightarrow>
    (\<exists>ys r zs. objs = ys @ r # zs \<and> findMapObject E positionOf dflt objs pos = (r, True) \<and>
       (\<forall>y\<in>set ys. distanceSimpleTo E pos (positionOf r) < distanceSimpleTo E pos (positionOf y)) \<and>
       (\<forall>z\<in>set zs. distanceSimpleTo E pos (positionOf r) \<le> distanceSimpleTo E pos (positionOf z))))"
proof (intro conjI impI)
  show "findMapObject E positionOf dflt [] pos = (dflt, False)"
    by (simp add: findMapObject_def)
  show "findMapObject E positionOf dflt [w] pos = (w, True)"
    by (simp add: findMapObject_def)
next
  assume "objs \<noteq> [] \<and>
    (\<forall>obj\<in>set objs. distanceSimpleTo E pos (positionOf obj) \<le> INVALID_DISTANCE_VALUE E)"
  then show "\<exists>ys r zs. objs = ys @ r # zs \<and> findMapObject E positionOf dflt objs pos = (r, True) \<and>
       (\<forall>y\<in>set ys. distanceSimpleTo E pos (positionOf r) < distanceSimpleTo E pos (positionOf y)) \<and>
       (\<forall>z\<in>set zs. distanceSimpleTo E pos (positionOf r) \<le> distanceSimpleTo E pos (positionOf z))"
    using findMapObject_first_minimum [of objs E pos positionOf dflt] by blast
qed

theorem findMapObject_nearest_witness:
  "[exampleWaypoint 1 ''K1'' (0, 3), exampleWaypoint 2 ''K2'' (1, 0), exampleWaypoint 3 ''K3'' (0, 1)] \<noteq> [] \<and>
   distanceSimpleTo exampleEnv (0, 0) (0, 3) \<le> INVALID_DISTANCE_VALUE exampleEnv \<and>
   distanceSimpleTo exampleEnv (0, 0) (1, 0) \<le> INVALID_DISTANCE_VALUE exampleEnv \<and>
   distanceSimpleTo exampleEnv (0, 0) (0, 1) \<le> INVALID_DISTANCE_VALUE exampleEnv \<and>
   findMapObject exampleEnv MapWaypoint.position (MapWaypoint_default exampleEnv)
     [exampleWaypoint 1 ''K1'' (0, 3), exampleWaypoint 2 ''K2'' (1, 0), exampleWaypoint 3 ''K3'' (0, 1)] (0, 0)
     = (exampleWaypoint 2 ''K2'' (1, 0), True) \<and>
   findMapObject exampleEnv MapWaypoint.position (MapWaypoint_default exampleEnv)
     [exampleWaypoint 1 ''K1'' (0, 3)] (0, 0) = (exampleWaypoint 1 ''K1'' (0, 3), True) \<and>
   findMapObject exampleEnv MapWaypoint.position (MapWaypoint_default exampleEnv) [] (0, 0)
     = (MapWaypoint_default exampleEnv, False)"
proof -
  let ?objs = "[exampleWaypoint 1 ''K1'' (0, 3), exampleWaypoint 2 ''K2'' (1, 0), exampleWaypoint 3 ''K3'' (0, 1)]"
  let ?d = "\<lambda>obj. distanceSimpleTo exampleEnv (0, 0) (MapWaypoint.position obj)"
  note inst = findMapObject_nearest [of exampleEnv MapWaypoint.position "MapWaypoint_default exampleEnv"
      "(0, 0)" "exampleWaypoint 1 ''K1'' (0, 3)" ?objs]
  have bound: "\<forall>obj\<in>set ?objs. ?d obj \<le> INVALID_DISTANCE_VALUE exampleEnv"
    by (simp add: exampleEnv_def exampleWaypoint_def)
  with inst obtain ys r zs where
    split: "?objs = ys @ r # zs" and
    res: "findMapObject exampleEnv MapWaypoint.position (MapWaypoint_default exampleEnv) ?objs (0, 0) = (r, True)" and
    before: "\<forall>y\<in>set ys. ?d r < ?d y" and after: "\<forall>z\<in>set zs. ?d r \<le> ?d z"
    by blast
  have dists: "?d (exampleWaypoint 1 ''K1'' (0, 3)) = 3" "?d (exampleWaypoint 2 ''K2'' (1, 0)) = 1"
    "?d (exampleWaypoint 3 ''K3'' (0, 1)) = 1"
    by (simp_all add: exampleEnv_def exampleWaypoint_def)
  have "r = exampleWaypoint 2 ''K2'' (1, 0)"
  proof (cases ys)
    case Nil
    with split after dists show ?thesis by auto
  next
    case (Cons y ys')
    note c1 = Cons
    show ?thesis
    proof (cases ys')
      case Nil
      with c1 split show ?thesis by simp
    next
      case (Cons y' ys'')
      with c1 split before dists show ?thesis by (cases ys'') auto
    qed
  qed
  with res inst bound show ?thesis
    by (simp add: exampleEnv_def exampleWaypoint_def)
qed

subsection \<open>Distance and course\<close>


lemma isAnyApproach_index [simp]: "isAnyApproach (l\<lparr>index := i\<rparr>) = isAnyApproach l"
  by (simp add: isAnyApproach_def)

text \<open>
  Claim C7. For a procedure leg outside the special case of a single point (there is no
  predecessor, or the predecessor is not a route leg, or the line of the procedure leg is
  not a point) \<open>updateDistanceAndCourse\<close> returns, and it copies the precomputed true
  course of the procedure leg to both course fields, the precomputed distance to both
  distance fields and the geometry of the procedure leg to the geometry; besides the
  index, no other member changes.
\<close>

theorem updateDistanceAndCourse_procedure:
  assumes "isAnyApproach l"
    and "\<forall>p. predRouteMapObj = Some p \<longrightarrow> \<not> isRoute p \<or> \<not> lineIsPoint E (line (approachLeg l))"
  shows "updateDistanceAndCourse E fp entryIndex predRouteMapObj l =
           Inr (l\<lparr>index := entryIndex,
                  courseTo := calculatedTrueCourse (approachLeg l),
                  courseRhumbTo := calculatedTrueCourse (approachLeg l),
                  distanceTo := calculatedDistance (approachLeg l),
                  distanceToRhumb := calculatedDistance (approachLeg l),
                  RouteMapObject.geometry := MapApproachLeg.geometry (approachLeg l)\<rparr>)"
  using assms by (cases predRouteMapObj) (auto simp: updateDistanceAndCourse_def Let_def)

theorem updateDistanceAndCourse_procedure_witness:
  "isAnyApproach (exampleLeg\<lparr>type := PROCEDURE 0, approachLeg := exampleApproachLeg 45\<rparr>) \<and>
   isRoute exampleLeg \<and>
   \<not> lineIsPoint exampleEnv (line (exampleApproachLeg 45)) \<and>
   updateDistanceAndCourse exampleEnv (exampleFlightplan [] []) 3 (Some exampleLeg)
       (exampleLeg\<lparr>type := PROCEDURE 0, approachLeg := exampleApproachLeg 45\<rparr>) =
     Inr (exampleLeg\<lparr>type := PROCEDURE 0, approachLeg := exampleApproachLeg 45, index := 3,
            courseTo := 45, courseRhumbTo := 45, distanceTo := 12, distanceToRhumb := 12,
            RouteMapObject.geometry := [(1, 1), (2, 2)]\<rparr>)"
  using updateDistanceAndCourse_procedure [of "exampleLeg\<lparr>type := PROCEDURE 0, approachLeg := exampleApproachLeg 45\<rparr>"
      "Some exampleLeg" exampleEnv "exampleFlightplan [] []" 3]
  by (simp add: isAnyApproach_def isRoute_def exampleLeg_def exampleApproachLeg_def exampleEnv_def)


text \<open>
  Claim C4 says that both course fields lie in \<open>[0, 360)\<close> for every leg. A procedure
  leg outside the special case takes both fields from \<open>calculatedTrueCourse\<close> as it is:
  with a precomputed course of 400 the fields are 400.
\<close>

theorem updateDistanceAndCourse_course_counterexample:
  "updateDistanceAndCourse exampleEnv (exampleFlightplan [] []) 0 None
       (exampleLeg\<lparr>type := PROCEDURE 0, approachLeg := exampleApproachLeg 400\<rparr>) =
     Inr (exampleLeg\<lparr>type := PROCEDURE 0, approachLeg := exampleApproachLeg 400, index := 0,
            courseTo := 400, courseRhumbTo := 400, distanceTo := 12, distanceToRhumb := 12,
            RouteMapObject.geometry := [(1, 1), (2, 2)]\<rparr>) \<and>
   \<not> courseTo (exampleLeg\<lparr>type := PROCEDURE 0, approachLeg := exampleApproachLeg 400, index := 0,
            courseTo := 400, courseRhumbTo := 400, distanceTo := 12, distanceToRhumb := 12,
            RouteMapObject.geometry := [(1, 1), (2, 2)]\<rparr>) < 360"
  by (simp add: updateDistanceAndCourse_def isAnyApproach_def exampleLeg_def exampleApproachLeg_def)

text \<open>
  Claim C4, amended. Let \<open>normalizeCourse\<close> map into \<open>[0, 360)\<close>, as the spec says of
  it. Whenever \<open>updateDistanceAndCourse\<close> returns, both course fields lie in \<open>[0, 360)\<close>
  for a leg that is not a procedure leg (with or without predecessor) and for a procedure
  leg in the special case of a single point after a route leg; for every other procedure
  leg both fields equal the precomputed \<open>calculatedTrueCourse\<close>, which is not normalised.
\<close>

theorem updateDistanceAndCourse_course:
  assumes norm: "\<forall>c. 0 \<le> normalizeCourse E c \<and> normalizeCourse E c < 360"
    and res: "updateDistanceAndCourse E fp entryIndex predRouteMapObj l = Inr l'"
  shows "if isAnyApproach l \<and>
            \<not> (predRouteMapObj \<noteq> None \<and> isRoute (the predRouteMapObj) \<and> lineIsPoint E (line (approachLeg l)))
         then courseTo l' = calculatedTrueCourse (approachLeg l) \<and>
              courseRhumbTo l' = calculatedTrueCourse (approachLeg l)
         else 0 \<le> courseTo l' \<and> courseTo l' < 360 \<and> 0 \<le> courseRhumbTo l' \<and> courseRhumbTo l' < 360"
  using res norm
  by (auto simp: updateDistanceAndCourse_def Let_def split: if_splits sum.splits)

theorem updateDistanceAndCourse_course_witness:
  "0 \<le> normalizeCourse exampleEnv (- 90) \<and> normalizeCourse exampleEnv 450 < 360 \<and>
   updateDistanceAndCourse exampleEnv (exampleFlightplan [] []) 1
       (Some (exampleLeg\<lparr>type := MapObjectTypes.AIRPORT, airport := exampleAirport 1 ''EDDF'' (5, 0) True\<rparr>))
       (exampleLeg\<lparr>type := MapObjectTypes.VOR, vor := exampleVor 5 ''VOR'' (2, 2)\<rparr>) =
     Inr (exampleLeg\<lparr>type := MapObjectTypes.VOR, vor := exampleVor 5 ''VOR'' (2, 2), index := 1,
            distanceTo := 5000 / 1852, distanceToRhumb := 5000 / 1852, courseTo := 90, courseRhumbTo := 90,
            RouteMapObject.geometry := [(5, 0), (2, 2)]\<rparr>) \<and>
   0 \<le> courseTo (exampleLeg\<lparr>type := MapObjectTypes.VOR, vor := exampleVor 5 ''VOR'' (2, 2), index := 1,
            distanceTo := 5000 / 1852, distanceToRhumb := 5000 / 1852, courseTo := 90, courseRhumbTo := 90,
            RouteMapObject.geometry := [(5, 0), (2, 2)]\<rparr>)"
proof -
  have norm: "\<forall>c. 0 \<le> normalizeCourse exampleEnv c \<and> normalizeCourse exampleEnv c < 360"
  proof
    fix c :: real
    have "real_of_int \<lfloor>c / 360\<rfloor> \<le> c / 360" "c / 360 < real_of_int \<lfloor>c / 360\<rfloor> + 1"
      by linarith+
    then show "0 \<le> normalizeCourse exampleEnv c \<and> normalizeCourse exampleEnv c < 360"
      by (simp add: exampleEnv_def field_simps)
  qed
  have res: "updateDistanceAndCourse exampleEnv (exampleFlightplan [] []) 1
       (Some (exampleLeg\<lparr>type := MapObjectTypes.AIRPORT, airport := exampleAirport 1 ''EDDF'' (5, 0) True\<rparr>))
       (exampleLeg\<lparr>type := MapObjectTypes.VOR, vor := exampleVor 5 ''VOR'' (2, 2)\<rparr>) =
     Inr (exampleLeg\<lparr>type := MapObjectTypes.VOR, vor := exampleVor 5 ''VOR'' (2, 2), index := 1,
            distanceTo := 5000 / 1852, distanceToRhumb := 5000 / 1852, courseTo := 90, courseRhumbTo := 90,
            RouteMapObject.geometry := [(5, 0), (2, 2)]\<rparr>)"
    by (simp add: updateDistanceAndCourse_def getPosition_def isAnyApproach_def exampleLeg_def
        exampleAirport_def exampleVor_def exampleEnv_def)
  from updateDistanceAndCourse_course [OF norm res] norm res show ?thesis
    by (simp add: isAnyApproach_def exampleLeg_def)
qed

subsection \<open>Frames and returning\<close>


lemma updateMagvar_frame [simp]:
  "type (updateMagvar l) = type l" "valid (updateMagvar l) = valid l" "index (updateMagvar l) = index l"
  "airport (updateMagvar l) = airport l" "vor (updateMagvar l) = vor l" "ndb (updateMagvar l) = ndb l"
  "waypoint (updateMagvar l) = waypoint l" "RouteMapObject.ils (updateMagvar l) = RouteMapObject.ils l"
  "runwayEnd (updateMagvar l) = runwayEnd l" "approachLeg (updateMagvar l) = approachLeg l"
  by (simp_all add: updateMagvar_def)

lemma updateDistanceAndCourse_frame:
  assumes "updateDistanceAndCourse E fp entryIndex predRouteMapObj l = Inr l'"
  shows "type l' = type l" "valid l' = valid l" "index l' = entryIndex"
    "airport l' = airport l" "vor l' = vor l" "ndb l' = ndb l" "waypoint l' = waypoint l"
  using assms
  by (auto simp: updateDistanceAndCourse_def Let_def split: if_splits sum.splits)

text \<open>When the operations return: every index they follow is inside its container.\<close>

lemma curEntry_returns:
  "isRoute l \<longrightarrow> 0 \<le> index l \<and> index l < int (length (entries fp)) \<Longrightarrow> \<exists>entry. curEntry E fp l = Inr entry"
  by (simp add: curEntry_def QList_at_def)

lemma getPosition_returns:
  "isRoute l \<longrightarrow> 0 \<le> index l \<and> index l < int (length (entries fp)) \<Longrightarrow> \<exists>pos. getPosition E fp l = Inr pos"
  using curEntry_returns [of l fp E] by (auto simp: getPosition_def)

lemma updateDistanceAndCourse_returns:
  assumes own_index: "isRoute l \<longrightarrow> 0 \<le> entryIndex \<and> entryIndex < int (length (entries fp))"
    and pred: "\<forall>p. predRouteMapObj = Some p \<longrightarrow> isRoute p \<longrightarrow> 0 \<le> index p \<and> index p < int (length (entries fp))"
  shows "\<exists>l'. updateDistanceAndCourse E fp entryIndex predRouteMapObj l = Inr l'"
proof -
  have own: "\<exists>pos. getPosition E fp (l\<lparr>index := entryIndex\<rparr>) = Inr pos"
    using own_index by (intro getPosition_returns) (simp add: isRoute_def isAnyApproach_def)
  show ?thesis
  proof (cases predRouteMapObj)
    case None
    with own show ?thesis by (auto simp: updateDistanceAndCourse_def Let_def)
  next
    case (Some p)
    with pred have "\<exists>pos. getPosition E fp p = Inr pos" by (intro getPosition_returns) simp
    with own Some show ?thesis by (auto simp: updateDistanceAndCourse_def Let_def)
  qed
qed


subsection \<open>Accessors\<close>

text \<open>
  Claim C9 says that \<open>getIdent\<close> and \<open>getId\<close> both read the payload that comes first in
  the order Airport, VOR, NDB, Waypoint, ILS, RunwayEnd. On a leg with a valid VOR and a
  valid waypoint \<open>getIdent\<close> reads the VOR and \<open>getId\<close> reads the waypoint.
\<close>

theorem accessor_order_counterexample:
  "MapVor.isValid (vor exampleTwoNavaids) \<and> MapWaypoint.isValid (waypoint exampleTwoNavaids) \<and>
   \<not> MapAirport.isValid (airport exampleTwoNavaids) \<and>
   getIdent exampleEnv (exampleFlightplan [] []) exampleTwoNavaids = Inr (MapVor.ident (vor exampleTwoNavaids)) \<and>
   getId exampleTwoNavaids = MapWaypoint.db_id (waypoint exampleTwoNavaids) \<and>
   getId exampleTwoNavaids \<noteq> MapVor.db_id (vor exampleTwoNavaids)"
  by (simp add: exampleTwoNavaids_def exampleLeg_def exampleVor_def exampleWaypoint_def exampleAirport_def
      getIdent_def getId_def)

text \<open>Such a leg arises from a procedure leg whose navaids hold a VOR and a waypoint.\<close>

lemma accessor_order_reachable:
  "createFromApproachLeg exampleEnv (exampleFlightplan [] []) 0 [exampleApproachLeg 45] None exampleLeg = Inr l
   \<Longrightarrow> vor l = vor exampleTwoNavaids \<and> waypoint l = waypoint exampleTwoNavaids \<and> airport l = airport exampleTwoNavaids
     \<and> type l = type exampleTwoNavaids"
  by (auto simp: createFromApproachLeg_def QList_at_def updateDistanceAndCourse_def isAnyApproach_def
      updateMagvar_def exampleTwoNavaids_def exampleLeg_def exampleApproachLeg_def exampleResult_def Let_def)

text \<open>
  Claim C9, amended. \<open>getIdent\<close> returns the identifier of the first valid payload in the
  order Airport, VOR, NDB, Waypoint, ILS, RunwayEnd (the runway end as \<open>RW\<close> followed by its
  name). \<open>getId\<close> returns \<open>-1\<close> for a leg of kind Invalid and otherwise the id of the first
  valid payload in the order Waypoint, VOR, NDB, Airport, ILS, \<open>-1\<close> when there is none; it
  never reads the runway end. The position of a route leg that is not Invalid follows the
  order of \<open>getIdent\<close>; name, region, range and frequency read the payloads that have the
  member, in that same order.
\<close>

theorem accessor_order:
  "(MapAirport.isValid (airport l) \<or> MapVor.isValid (vor l) \<or> MapNdb.isValid (ndb l) \<or>
    MapWaypoint.isValid (waypoint l) \<or> MapIls.isValid (RouteMapObject.ils l) \<or>
    MapRunwayEnd.isValid (runwayEnd l) \<longrightarrow>
    getIdent E fp l =
      Inr (firstValid
             [(MapAirport.isValid (airport l), MapAirport.ident (airport l)),
              (MapVor.isValid (vor l), MapVor.ident (vor l)),
              (MapNdb.isValid (ndb l), MapNdb.ident (ndb l)),
              (MapWaypoint.isValid (waypoint l), MapWaypoint.ident (waypoint l)),
              (MapIls.isValid (RouteMapObject.ils l), MapIls.ident (RouteMapObject.ils l)),
              (MapRunwayEnd.isValid (runwayEnd l), ''RW'' @ MapRunwayEnd.name (runwayEnd l))] [])) \<and>
   getId l =
     (if type l = INVALID then - 1
      else firstValid
             [(MapWaypoint.isValid (waypoint l), MapWaypoint.db_id (waypoint l)),
              (MapVor.isValid (vor l), MapVor.db_id (vor l)),
              (MapNdb.isValid (ndb l), MapNdb.db_id (ndb l)),
              (MapAirport.isValid (airport l), MapAirport.db_id (airport l)),
              (MapIls.isValid (RouteMapObject.ils l), MapIls.db_id (RouteMapObject.ils l))] (- 1)) \<and>
   (\<not> isAnyApproach l \<and> type l \<noteq> INVALID \<and>
    (MapAirport.isValid (airport l) \<or> MapVor.isValid (vor l) \<or> MapNdb.isValid (ndb l) \<or>
     MapWaypoint.isValid (waypoint l) \<or> MapIls.isValid (RouteMapObject.ils l) \<or>
     MapRunwayEnd.isValid (runwayEnd l)) \<longrightarrow>
    getPosition E fp l =
      Inr (firstValid
             [(MapAirport.isValid (airport l), MapAirport.position (airport l)),
              (MapVor.isValid (vor l), MapVor.position (vor l)),
              (MapNdb.isValid (ndb l), MapNdb.position (ndb l)),
              (MapWaypoint.isValid (waypoint l), MapWaypoint.position (waypoint l)),
              (MapIls.isValid (RouteMapObject.ils l), MapIls.position (RouteMapObject.ils l)),
              (MapRunwayEnd.isValid (runwayEnd l), MapRunwayEnd.position (runwayEnd l))] (EMPTY_POS E))) \<and>
   getName l =
     (if type l = INVALID then []
      else firstValid
             [(MapAirport.isValid (airport l), MapAirport.name (airport l)),
              (MapVor.isValid (vor l), MapVor.name (vor l)),
              (MapNdb.isValid (ndb l), MapNdb.name (ndb l)),
              (MapIls.isValid (RouteMapObject.ils l), MapIls.name (RouteMapObject.ils l))] []) \<and>
   getRegion l =
     firstValid
       [(MapVor.isValid (vor l), MapVor.region (vor l)),
        (MapNdb.isValid (ndb l), MapNdb.region (ndb l)),
        (MapWaypoint.isValid (waypoint l), MapWaypoint.region (waypoint l))] [] \<and>
   getRange l =
     (if type l = INVALID then - 1
      else firstValid
             [(MapVor.isValid (vor l), MapVor.range (vor l)),
              (MapNdb.isValid (ndb l), MapNdb.range (ndb l)),
              (MapIls.isValid (RouteMapObject.ils l), MapIls.range (RouteMapObject.ils l))] (- 1)) \<and>
   getFrequency l =
     (if type l = INVALID then 0
      else firstValid
             [(MapVor.isValid (vor l), MapVor.frequency (vor l)),
              (MapNdb.isValid (ndb l), MapNdb.frequency (ndb l)),
              (MapIls.isValid (RouteMapObject.ils l), MapIls.frequency (RouteMapObject.ils l))] 0)"
  by (simp add: getIdent_def getId_def getPosition_def getName_def getRegion_def getRange_def
      getFrequency_def)

theorem accessor_order_witness:
  "MapVor.isValid (vor exampleTwoNavaids) \<and>
   \<not> isAnyApproach (exampleTwoNavaids\<lparr>type := MapObjectTypes.VOR\<rparr>) \<and>
   getIdent exampleEnv (exampleFlightplan [] []) exampleTwoNavaids = Inr ''VOR'' \<and>
   getId exampleTwoNavaids = 7 \<and>
   getId (exampleTwoNavaids\<lparr>type := INVALID\<rparr>) = - 1 \<and>
   getPosition exampleEnv (exampleFlightplan [] []) (exampleTwoNavaids\<lparr>type := MapObjectTypes.VOR\<rparr>) = Inr (2, 2) \<and>
   getRegion exampleTwoNavaids = ''K1'' \<and>
   getRange exampleTwoNavaids = 130"
  using accessor_order [of exampleTwoNavaids exampleEnv "exampleFlightplan [] []"]
    accessor_order [of "exampleTwoNavaids\<lparr>type := INVALID\<rparr>" exampleEnv "exampleFlightplan [] []"]
    accessor_order [of "exampleTwoNavaids\<lparr>type := MapObjectTypes.VOR\<rparr>" exampleEnv "exampleFlightplan [] []"]
  by (simp add: exampleTwoNavaids_def exampleLeg_def exampleVor_def exampleWaypoint_def exampleAirport_def
      isAnyApproach_def)

subsection \<open>Resolving an entry against the database\<close>

text \<open>The branches of the switch when the nearest candidate is too far, and when none is found.\<close>

lemma resolveWaypoint_far:
  assumes "findMapObject E MapWaypoint.position (MapWaypoint_default E)
             (waypoints (getMapObjectByIdent Q WAYPOINT (icaoIdent entry) region'))
             (FlightplanEntry.position entry) = (obj, True)"
    and "\<not> distanceMeterTo E (MapWaypoint.position obj) (FlightplanEntry.position entry) < 10000"
  shows "resolveWaypoint E Q region' entry l w =
           (l\<lparr>type := WAYPOINT, waypoint := obj, valid := False\<rparr>,
            logged (GetMapObjectByIdent WAYPOINT (icaoIdent entry) region') w)"
  using assms by (simp add: resolveWaypoint_def MAX_WAYPOINT_DISTANCE_METER_def)

lemma resolveVor_far:
  assumes "findMapObject E MapVor.position (MapVor_default E)
             (vors (getMapObjectByIdent Q MapObjectTypes.VOR (icaoIdent entry) region'))
             (FlightplanEntry.position entry) = (obj, True)"
    and "\<not> distanceMeterTo E (MapVor.position obj) (FlightplanEntry.position entry) < 10000"
  shows "resolveVor E Q region' entry l w =
           (l\<lparr>type := MapObjectTypes.VOR, vor := obj, valid := False\<rparr>,
            logged (GetMapObjectByIdent MapObjectTypes.VOR (icaoIdent entry) region') w)"
  using assms by (simp add: resolveVor_def MAX_WAYPOINT_DISTANCE_METER_def)

lemma resolveNdb_far:
  assumes "findMapObject E MapNdb.position (MapNdb_default E)
             (ndbs (getMapObjectByIdent Q MapObjectTypes.NDB (icaoIdent entry) region'))
             (FlightplanEntry.position entry) = (obj, True)"
    and "\<not> distanceMeterTo E (MapNdb.position obj) (FlightplanEntry.position entry) < 10000"
  shows "resolveNdb E Q region' entry l w =
           (l\<lparr>type := MapObjectTypes.NDB, ndb := obj, valid := False\<rparr>,
            logged (GetMapObjectByIdent MapObjectTypes.NDB (icaoIdent entry) region') w)"
  using assms by (simp add: resolveNdb_def MAX_WAYPOINT_DISTANCE_METER_def)

lemma findMapObject_empty: "findMapObject E positionOf dflt [] pos = (dflt, False)"
  by (simp add: findMapObject_def)

lemma resolveWaypoint_none:
  "waypoints (getMapObjectByIdent Q WAYPOINT (icaoIdent entry) region') = [] \<Longrightarrow>
   resolveWaypoint E Q region' entry l w = (l, logged (GetMapObjectByIdent WAYPOINT (icaoIdent entry) region') w)"
  by (simp add: resolveWaypoint_def findMapObject_empty)

lemma resolveVor_none:
  "vors (getMapObjectByIdent Q MapObjectTypes.VOR (icaoIdent entry) region') = [] \<Longrightarrow>
   resolveVor E Q region' entry l w = (l, logged (GetMapObjectByIdent MapObjectTypes.VOR (icaoIdent entry) region') w)"
  by (simp add: resolveVor_def findMapObject_empty)

lemma resolveNdb_none:
  "ndbs (getMapObjectByIdent Q MapObjectTypes.NDB (icaoIdent entry) region') = [] \<Longrightarrow>
   resolveNdb E Q region' entry l w = (l, logged (GetMapObjectByIdent MapObjectTypes.NDB (icaoIdent entry) region') w)"
  by (simp add: resolveNdb_def findMapObject_empty)

lemma resolveAirport_none:
  "airports (getMapObjectByIdent Q MapObjectTypes.AIRPORT (icaoIdent entry) []) = [] \<Longrightarrow>
   resolveAirport E Q entry predRouteMapObj l w =
     (l, logged (GetMapObjectByIdent MapObjectTypes.AIRPORT (icaoIdent entry) []) w)"
  by (simp add: resolveAirport_def)

text \<open>
  The part of \<open>createFromDatabaseByEntry\<close> after the switch, on the leg and the world
  that the switch leaves.
\<close>

lemma createFromDatabaseByEntry_after_switch:
  assumes entry: "QList_at (entries (flightplan w)) entryIndex = Inr entry"
    and switch: "(case waypointType entry of
                    UNKNOWN \<Rightarrow> (l\<lparr>index := entryIndex\<rparr>, w)
                  | WaypointType.AIRPORT \<Rightarrow> resolveAirport E Q entry predRouteMapObj (l\<lparr>index := entryIndex\<rparr>) w
                  | INTERSECTION \<Rightarrow> resolveWaypoint E Q (if icaoRegion entry = ''KK'' then [] else icaoRegion entry)
                      entry (l\<lparr>index := entryIndex\<rparr>) w
                  | WaypointType.VOR \<Rightarrow> resolveVor E Q (if icaoRegion entry = ''KK'' then [] else icaoRegion entry)
                      entry (l\<lparr>index := entryIndex\<rparr>) w
                  | WaypointType.NDB \<Rightarrow> resolveNdb E Q (if icaoRegion entry = ''KK'' then [] else icaoRegion entry)
                      entry (l\<lparr>index := entryIndex\<rparr>) w
                  | WaypointType.USER \<Rightarrow> resolveUser entry (l\<lparr>index := entryIndex\<rparr>) w) = (l1, w1)"
  shows "createFromDatabaseByEntry E Q entryIndex predRouteMapObj l w =
           (case updateDistanceAndCourse E (flightplan w1) entryIndex predRouteMapObj
                   (updateMagvar (if \<not> valid l1 then l1\<lparr>type := INVALID\<rparr> else l1)) of
              Inl e \<Rightarrow> Inl e
            | Inr l' \<Rightarrow> Inr (l', w1))"
  using entry switch by (simp add: createFromDatabaseByEntry_def Let_def)


text \<open>
  Claim C3. When \<open>createFromAirport\<close>, \<open>createFromApproachLeg\<close> or
  \<open>createFromDatabaseByEntry\<close> returns, a leg that is not valid has the kind Invalid.
\<close>

theorem valid_false_implies_invalid:
  "(createFromAirport E fp entryIndex newAirport predRouteMapObj l = Inr l' \<longrightarrow>
      (\<not> valid l' \<longrightarrow> type l' = INVALID)) \<and>
   (createFromApproachLeg E fp entryIndex legs predRouteMapObj l = Inr l' \<longrightarrow>
      (\<not> valid l' \<longrightarrow> type l' = INVALID)) \<and>
   (createFromDatabaseByEntry E Q entryIndex predRouteMapObj l w = Inr (l', w') \<longrightarrow>
      (\<not> valid l' \<longrightarrow> type l' = INVALID))"
proof (intro conjI impI)
  assume "createFromAirport E fp entryIndex newAirport predRouteMapObj l = Inr l'" and "\<not> valid l'"
  then show "type l' = INVALID"
    by (auto simp: createFromAirport_def Let_def split: sum.splits)
next
  assume "createFromApproachLeg E fp entryIndex legs predRouteMapObj l = Inr l'" and "\<not> valid l'"
  then show "type l' = INVALID"
    by (auto simp: createFromApproachLeg_def Let_def split: sum.splits)
next
  assume res: "createFromDatabaseByEntry E Q entryIndex predRouteMapObj l w = Inr (l', w')"
    and invalid: "\<not> valid l'"
  from res obtain entry where entry: "QList_at (entries (flightplan w)) entryIndex = Inr entry"
    by (cases "QList_at (entries (flightplan w)) entryIndex")
       (simp_all add: createFromDatabaseByEntry_def Let_def)
  obtain l1 w1 where switch:
    "(case waypointType entry of
        UNKNOWN \<Rightarrow> (l\<lparr>index := entryIndex\<rparr>, w)
      | WaypointType.AIRPORT \<Rightarrow> resolveAirport E Q entry predRouteMapObj (l\<lparr>index := entryIndex\<rparr>) w
      | INTERSECTION \<Rightarrow> resolveWaypoint E Q (if icaoRegion entry = ''KK'' then [] else icaoRegion entry)
          entry (l\<lparr>index := entryIndex\<rparr>) w
      | WaypointType.VOR \<Rightarrow> resolveVor E Q (if icaoRegion entry = ''KK'' then [] else icaoRegion entry)
          entry (l\<lparr>index := entryIndex\<rparr>) w
      | WaypointType.NDB \<Rightarrow> resolveNdb E Q (if icaoRegion entry = ''KK'' then [] else icaoRegion entry)
          entry (l\<lparr>index := entryIndex\<rparr>) w
      | WaypointType.USER \<Rightarrow> resolveUser entry (l\<lparr>index := entryIndex\<rparr>) w) = (l1, w1)"
    by (meson surj_pair)
  let ?l2 = "updateMagvar (if \<not> valid l1 then l1\<lparr>type := INVALID\<rparr> else l1)"
  from createFromDatabaseByEntry_after_switch [OF entry switch] res
  have upd: "updateDistanceAndCourse E (flightplan w1) entryIndex predRouteMapObj ?l2 = Inr l'"
    by (auto split: sum.splits if_splits)
  from updateDistanceAndCourse_frame(1,2) [OF upd] invalid
  show "type l' = INVALID" by (simp split: if_splits)
qed

theorem valid_false_implies_invalid_witness:
  "createFromAirport exampleEnv (exampleFlightplan [] []) 0 (exampleAirport 10 ''EDDF'' (5, 0) True) None exampleLeg =
     Inr (exampleLeg\<lparr>type := MapObjectTypes.AIRPORT, airport := exampleAirport 10 ''EDDF'' (5, 0) True,
            RouteMapObject.magvar := 1, RouteMapObject.geometry := [(5, 0)], valid := True\<rparr>) \<and>
   createFromApproachLeg exampleEnv (exampleFlightplan [] []) 0 [exampleApproachLeg 45] None exampleLeg =
     Inr (exampleTwoNavaids\<lparr>approachLeg := exampleApproachLeg 45, RouteMapObject.magvar := 4,
            courseTo := 45, courseRhumbTo := 45, distanceTo := 12, distanceToRhumb := 12,
            RouteMapObject.geometry := [(1, 1), (2, 2)]\<rparr>) \<and>
   createFromDatabaseByEntry exampleEnv exampleQuery 0 None exampleLeg
       (exampleWorld [exampleEntry INTERSECTION ''ABC'' (20, 0)] []) =
     Inr (exampleLeg\<lparr>type := INVALID, waypoint := exampleWaypoint 2 ''K2'' (1, 0),
            RouteMapObject.magvar := 2, RouteMapObject.geometry := [(20, 0)]\<rparr>,
          (exampleWorld [exampleEntry INTERSECTION ''ABC'' (20, 0)] [])
            \<lparr>queries := [GetMapObjectByIdent WAYPOINT ''ABC'' []]\<rparr>) \<and>
   \<not> valid (exampleLeg\<lparr>type := INVALID, waypoint := exampleWaypoint 2 ''K2'' (1, 0),
            RouteMapObject.magvar := 2, RouteMapObject.geometry := [(20, 0)]\<rparr>) \<and>
   type (exampleLeg\<lparr>type := INVALID, waypoint := exampleWaypoint 2 ''K2'' (1, 0),
            RouteMapObject.magvar := 2, RouteMapObject.geometry := [(20, 0)]\<rparr>) = INVALID"
proof -
  have a: "createFromAirport exampleEnv (exampleFlightplan [] []) 0 (exampleAirport 10 ''EDDF'' (5, 0) True) None exampleLeg =
     Inr (exampleLeg\<lparr>type := MapObjectTypes.AIRPORT, airport := exampleAirport 10 ''EDDF'' (5, 0) True,
            RouteMapObject.magvar := 1, RouteMapObject.geometry := [(5, 0)], valid := True\<rparr>)"
    by (simp add: createFromAirport_def updateMagvar_def updateDistanceAndCourse_def getPosition_def
        isAnyApproach_def exampleLeg_def exampleAirport_def)
  have b: "createFromApproachLeg exampleEnv (exampleFlightplan [] []) 0 [exampleApproachLeg 45] None exampleLeg =
     Inr (exampleTwoNavaids\<lparr>approachLeg := exampleApproachLeg 45, RouteMapObject.magvar := 4,
            courseTo := 45, courseRhumbTo := 45, distanceTo := 12, distanceToRhumb := 12,
            RouteMapObject.geometry := [(1, 1), (2, 2)]\<rparr>)"
    by (simp add: createFromApproachLeg_def QList_at_def updateMagvar_def updateDistanceAndCourse_def
        isAnyApproach_def exampleTwoNavaids_def exampleLeg_def exampleApproachLeg_def exampleResult_def)
  have c: "createFromDatabaseByEntry exampleEnv exampleQuery 0 None exampleLeg
       (exampleWorld [exampleEntry INTERSECTION ''ABC'' (20, 0)] []) =
     Inr (exampleLeg\<lparr>type := INVALID, waypoint := exampleWaypoint 2 ''K2'' (1, 0),
            RouteMapObject.magvar := 2, RouteMapObject.geometry := [(20, 0)]\<rparr>,
          (exampleWorld [exampleEntry INTERSECTION ''ABC'' (20, 0)] [])
            \<lparr>queries := [GetMapObjectByIdent WAYPOINT ''ABC'' []]\<rparr>)"
    by (simp add: createFromDatabaseByEntry_def resolveWaypoint_def findMapObject_def logged_def
        QList_at_def MAX_WAYPOINT_DISTANCE_METER_def updateMagvar_def updateDistanceAndCourse_def
        getPosition_def curEntry_def isRoute_def isAnyApproach_def exampleWorld_def exampleFlightplan_def
        exampleEntry_def exampleQuery_def exampleResult_def exampleWaypoint_def exampleLeg_def
        exampleAirport_def exampleEnv_def)
  from valid_false_implies_invalid [of exampleEnv "exampleFlightplan [] []" 0
      "exampleAirport 10 ''EDDF'' (5, 0) True" None exampleLeg _ "[exampleApproachLeg 45]" exampleQuery
      "exampleWorld [exampleEntry INTERSECTION ''ABC'' (20, 0)] []"] a b c
  show ?thesis by (simp add: exampleLeg_def)
qed

text \<open>What \<open>createFromDatabaseByEntry\<close> returns, from what the switch leaves.\<close>

lemma createFromDatabaseByEntry_result:
  assumes entry: "QList_at (entries (flightplan w)) entryIndex = Inr entry"
    and switch: "(case waypointType entry of
                    UNKNOWN \<Rightarrow> (l\<lparr>index := entryIndex\<rparr>, w)
                  | WaypointType.AIRPORT \<Rightarrow> resolveAirport E Q entry predRouteMapObj (l\<lparr>index := entryIndex\<rparr>) w
                  | INTERSECTION \<Rightarrow> resolveWaypoint E Q (queryRegion entry) entry (l\<lparr>index := entryIndex\<rparr>) w
                  | WaypointType.VOR \<Rightarrow> resolveVor E Q (queryRegion entry) entry (l\<lparr>index := entryIndex\<rparr>) w
                  | WaypointType.NDB \<Rightarrow> resolveNdb E Q (queryRegion entry) entry (l\<lparr>index := entryIndex\<rparr>) w
                  | WaypointType.USER \<Rightarrow> resolveUser entry (l\<lparr>index := entryIndex\<rparr>) w) = (l1, w1)"
    and res: "createFromDatabaseByEntry E Q entryIndex predRouteMapObj l w = Inr (l', w')"
  shows "w' = w1" and "valid l' = valid l1" and "type l' = (if valid l1 then type l1 else INVALID)"
    and "waypoint l' = waypoint l1" and "vor l' = vor l1" and "ndb l' = ndb l1"
proof -
  let ?l2 = "updateMagvar (if \<not> valid l1 then l1\<lparr>type := INVALID\<rparr> else l1)"
  from createFromDatabaseByEntry_after_switch [OF entry switch [unfolded queryRegion_def]] res
  have upd: "updateDistanceAndCourse E (flightplan w1) entryIndex predRouteMapObj ?l2 = Inr l'"
    and w: "w' = w1"
    by (auto split: sum.splits if_splits)
  show "w' = w1" by (rule w)
  from updateDistanceAndCourse_frame [OF upd]
  show "valid l' = valid l1" and "type l' = (if valid l1 then type l1 else INVALID)"
    and "waypoint l' = waypoint l1" and "vor l' = vor l1" and "ndb l' = ndb l1"
    by (simp_all split: if_splits)
qed

text \<open>
  Claim C10. For an entry of type User whose index is inside the flight plan (and a
  predecessor, if there is one, whose index is inside it too) \<open>createFromDatabaseByEntry\<close>
  returns a leg that is valid and of kind User. The log of database calls is unchanged;
  the flight plan is the old one with the identifier and the region of that entry set to
  the empty string, every other member of the entry and every other entry as before.
\<close>

theorem createFromDatabaseByEntry_user:
  assumes entry: "QList_at (entries (flightplan w)) entryIndex = Inr entry"
    and user: "waypointType entry = WaypointType.USER"
    and pred: "\<forall>p. predRouteMapObj = Some p \<longrightarrow> isRoute p \<longrightarrow>
                 0 \<le> index p \<and> index p < int (length (entries (flightplan w)))"
  shows "\<exists>l' w'. createFromDatabaseByEntry E Q entryIndex predRouteMapObj l w = Inr (l', w') \<and>
           valid l' \<and> type l' = MapObjectTypes.USER \<and>
           queries w' = queries w \<and>
           flightplan w' = (flightplan w)\<lparr>entries :=
             (entries (flightplan w))[nat entryIndex := entry\<lparr>icaoIdent := [], icaoRegion := []\<rparr>]\<rparr>"
proof -
  let ?l1 = "l\<lparr>index := entryIndex, valid := True, type := MapObjectTypes.USER\<rparr>"
  let ?w1 = "setEntry entryIndex (entry\<lparr>icaoIdent := [], icaoRegion := []\<rparr>) w"
  have switch: "(case waypointType entry of
                    UNKNOWN \<Rightarrow> (l\<lparr>index := entryIndex\<rparr>, w)
                  | WaypointType.AIRPORT \<Rightarrow> resolveAirport E Q entry predRouteMapObj (l\<lparr>index := entryIndex\<rparr>) w
                  | INTERSECTION \<Rightarrow> resolveWaypoint E Q (queryRegion entry) entry (l\<lparr>index := entryIndex\<rparr>) w
                  | WaypointType.VOR \<Rightarrow> resolveVor E Q (queryRegion entry) entry (l\<lparr>index := entryIndex\<rparr>) w
                  | WaypointType.NDB \<Rightarrow> resolveNdb E Q (queryRegion entry) entry (l\<lparr>index := entryIndex\<rparr>) w
                  | WaypointType.USER \<Rightarrow> resolveUser entry (l\<lparr>index := entryIndex\<rparr>) w) = (?l1, ?w1)"
    using user by (simp add: resolveUser_def)
  from entry have range: "0 \<le> entryIndex \<and> entryIndex < int (length (entries (flightplan w)))"
    by (simp add: QList_at_def split: if_splits)
  have len: "length (entries (flightplan ?w1)) = length (entries (flightplan w))"
    by (simp add: setEntry_def)
  have "\<exists>l'. updateDistanceAndCourse E (flightplan ?w1) entryIndex predRouteMapObj (updateMagvar ?l1) = Inr l'"
    using range pred by (intro updateDistanceAndCourse_returns) (simp_all add: len)
  then obtain l' where
    upd: "updateDistanceAndCourse E (flightplan ?w1) entryIndex predRouteMapObj (updateMagvar ?l1) = Inr l'"
    by blast
  from createFromDatabaseByEntry_after_switch [OF entry switch [unfolded queryRegion_def]] upd
  have res: "createFromDatabaseByEntry E Q entryIndex predRouteMapObj l w = Inr (l', ?w1)"
    by simp
  from createFromDatabaseByEntry_result(2,3) [OF entry switch res]
  have "valid l'" and "type l' = MapObjectTypes.USER" by simp_all
  with res show ?thesis by (simp add: setEntry_def)
qed

theorem createFromDatabaseByEntry_user_witness:
  "QList_at (entries (flightplan (exampleWorld [exampleEntry INTERSECTION ''ABC'' (0, 0),
       exampleEntry WaypointType.USER ''XYZ'' (3, 3)] ''GATE 12''))) 1 =
     Inr (exampleEntry WaypointType.USER ''XYZ'' (3, 3)) \<and>
   waypointType (exampleEntry WaypointType.USER ''XYZ'' (3, 3)) = WaypointType.USER \<and>
   isRoute (exampleLeg\<lparr>type := INVALID\<rparr>) \<and> index (exampleLeg\<lparr>type := INVALID\<rparr>) = 0 \<and>
   (\<exists>l' w'. createFromDatabaseByEntry exampleEnv exampleQuery 1 (Some (exampleLeg\<lparr>type := INVALID\<rparr>)) exampleLeg
        (exampleWorld [exampleEntry INTERSECTION ''ABC'' (0, 0),
           exampleEntry WaypointType.USER ''XYZ'' (3, 3)] ''GATE 12'') = Inr (l', w') \<and>
      valid l' \<and> type l' = MapObjectTypes.USER \<and> queries w' = [] \<and>
      flightplan w' = exampleFlightplan [exampleEntry INTERSECTION ''ABC'' (0, 0),
        (exampleEntry WaypointType.USER ''XYZ'' (3, 3))\<lparr>icaoIdent := [], icaoRegion := []\<rparr>] ''GATE 12'')"
  using createFromDatabaseByEntry_user [of
      "exampleWorld [exampleEntry INTERSECTION ''ABC'' (0, 0), exampleEntry WaypointType.USER ''XYZ'' (3, 3)] ''GATE 12''"
      1 "exampleEntry WaypointType.USER ''XYZ'' (3, 3)" "Some (exampleLeg\<lparr>type := INVALID\<rparr>)"
      exampleEnv exampleQuery exampleLeg]
  by (simp add: QList_at_def exampleWorld_def exampleFlightplan_def exampleEntry_def exampleLeg_def
      isRoute_def isAnyApproach_def)


text \<open>Two runs on the example database: a candidate that is too far, and no candidate.\<close>

lemma exampleRun_far:
  "createFromDatabaseByEntry exampleEnv exampleQuery 0 None exampleLeg
       (exampleWorld [exampleEntry INTERSECTION ''ABC'' (20, 0)] []) =
     Inr (exampleLeg\<lparr>type := INVALID, waypoint := exampleWaypoint 2 ''K2'' (1, 0),
            RouteMapObject.magvar := 2, RouteMapObject.geometry := [(20, 0)]\<rparr>,
          (exampleWorld [exampleEntry INTERSECTION ''ABC'' (20, 0)] [])
            \<lparr>queries := [GetMapObjectByIdent WAYPOINT ''ABC'' []]\<rparr>)"
  by (simp add: createFromDatabaseByEntry_def resolveWaypoint_def findMapObject_def logged_def
      QList_at_def MAX_WAYPOINT_DISTANCE_METER_def updateMagvar_def updateDistanceAndCourse_def
      getPosition_def curEntry_def isRoute_def isAnyApproach_def exampleWorld_def exampleFlightplan_def
      exampleEntry_def exampleQuery_def exampleResult_def exampleWaypoint_def exampleLeg_def
      exampleAirport_def exampleEnv_def)

lemma exampleRun_none:
  "createFromDatabaseByEntry exampleEnv exampleQuery 0 None l0
       (exampleWorld [exampleEntry WaypointType.VOR ''NOPE'' (0, 0)] []) =
     (case updateDistanceAndCourse exampleEnv (exampleFlightplan [exampleEntry WaypointType.VOR ''NOPE'' (0, 0)] []) 0 None
             (updateMagvar (if \<not> valid l0 then l0\<lparr>index := 0, type := INVALID\<rparr> else l0\<lparr>index := 0\<rparr>)) of
        Inl e \<Rightarrow> Inl e
      | Inr l' \<Rightarrow> Inr (l', (exampleWorld [exampleEntry WaypointType.VOR ''NOPE'' (0, 0)] [])
            \<lparr>queries := [GetMapObjectByIdent MapObjectTypes.VOR ''NOPE'' []]\<rparr>))"
  by (simp add: createFromDatabaseByEntry_def resolveVor_def findMapObject_def logged_def
      QList_at_def exampleWorld_def exampleFlightplan_def exampleEntry_def exampleQuery_def
      exampleResult_def Let_def split: sum.splits)

lemma exampleFind_far:
  "findMapObject exampleEnv MapWaypoint.position (MapWaypoint_default exampleEnv)
       (waypoints (getMapObjectByIdent exampleQuery WAYPOINT ''ABC'' [])) (20, 0) =
     (exampleWaypoint 2 ''K2'' (1, 0), True)"
  by (simp add: findMapObject_def exampleQuery_def exampleResult_def exampleWaypoint_def exampleEnv_def)

text \<open>
  Claim C2 says that a leg whose nearest candidate is farther than the tolerance keeps the
  requested kind. For the waypoint \<open>ABC\<close> asked for at \<open>(20, 0)\<close> the nearest candidate
  is 19000 meters away, and the leg ends with the kind Invalid.
\<close>

theorem createFromDatabaseByEntry_beyond_tolerance_counterexample:
  "findMapObject exampleEnv MapWaypoint.position (MapWaypoint_default exampleEnv)
       (waypoints (getMapObjectByIdent exampleQuery WAYPOINT ''ABC'' [])) (20, 0) =
     (exampleWaypoint 2 ''K2'' (1, 0), True) \<and>
   distanceMeterTo exampleEnv (1, 0) (20, 0) = 19000 \<and>
   createFromDatabaseByEntry exampleEnv exampleQuery 0 None exampleLeg
       (exampleWorld [exampleEntry INTERSECTION ''ABC'' (20, 0)] []) =
     Inr (exampleLeg\<lparr>type := INVALID, waypoint := exampleWaypoint 2 ''K2'' (1, 0),
            RouteMapObject.magvar := 2, RouteMapObject.geometry := [(20, 0)]\<rparr>,
          (exampleWorld [exampleEntry INTERSECTION ''ABC'' (20, 0)] [])
            \<lparr>queries := [GetMapObjectByIdent WAYPOINT ''ABC'' []]\<rparr>) \<and>
   type (exampleLeg\<lparr>type := INVALID, waypoint := exampleWaypoint 2 ''K2'' (1, 0),
            RouteMapObject.magvar := 2, RouteMapObject.geometry := [(20, 0)]\<rparr>) \<noteq> WAYPOINT"
  using exampleRun_far exampleFind_far by (simp add: exampleLeg_def exampleEnv_def)

text \<open>
  Claim C2, amended. For an entry of type Intersection, VOR or NDB whose nearest candidate
  is farther than 10000 meters from the recorded position of the entry, after
  \<open>createFromDatabaseByEntry\<close> returns the leg is not valid and its kind is Invalid; the
  candidate stays in the payload of the leg, and the flight plan is unchanged: region,
  identifier and position of the candidate are not written to the entry.
\<close>

theorem createFromDatabaseByEntry_beyond_tolerance:
  assumes entry: "QList_at (entries (flightplan w)) entryIndex = Inr entry"
    and res: "createFromDatabaseByEntry E Q entryIndex predRouteMapObj l w = Inr (l', w')"
  shows "(waypointType entry = INTERSECTION \<and>
          findMapObject E MapWaypoint.position (MapWaypoint_default E)
            (waypoints (getMapObjectByIdent Q WAYPOINT (icaoIdent entry) (queryRegion entry)))
            (FlightplanEntry.position entry) = (wp, True) \<and>
          distanceMeterTo E (MapWaypoint.position wp) (FlightplanEntry.position entry) > 10000 \<longrightarrow>
            \<not> valid l' \<and> type l' = INVALID \<and> waypoint l' = wp \<and> flightplan w' = flightplan w) \<and>
         (waypointType entry = WaypointType.VOR \<and>
          findMapObject E MapVor.position (MapVor_default E)
            (vors (getMapObjectByIdent Q MapObjectTypes.VOR (icaoIdent entry) (queryRegion entry)))
            (FlightplanEntry.position entry) = (v, True) \<and>
          distanceMeterTo E (MapVor.position v) (FlightplanEntry.position entry) > 10000 \<longrightarrow>
            \<not> valid l' \<and> type l' = INVALID \<and> vor l' = v \<and> flightplan w' = flightplan w) \<and>
         (waypointType entry = WaypointType.NDB \<and>
          findMapObject E MapNdb.position (MapNdb_default E)
            (ndbs (getMapObjectByIdent Q MapObjectTypes.NDB (icaoIdent entry) (queryRegion entry)))
            (FlightplanEntry.position entry) = (n, True) \<and>
          distanceMeterTo E (MapNdb.position n) (FlightplanEntry.position entry) > 10000 \<longrightarrow>
            \<not> valid l' \<and> type l' = INVALID \<and> ndb l' = n \<and> flightplan w' = flightplan w)"
proof -
  have wpt: "waypointType entry = INTERSECTION \<and>
          findMapObject E MapWaypoint.position (MapWaypoint_default E)
            (waypoints (getMapObjectByIdent Q WAYPOINT (icaoIdent entry) (queryRegion entry)))
            (FlightplanEntry.position entry) = (wp, True) \<and>
          distanceMeterTo E (MapWaypoint.position wp) (FlightplanEntry.position entry) > 10000 \<longrightarrow>
      \<not> valid l' \<and> type l' = INVALID \<and> waypoint l' = wp \<and> flightplan w' = flightplan w"
  proof
    assume far: "waypointType entry = INTERSECTION \<and>
            findMapObject E MapWaypoint.position (MapWaypoint_default E)
              (waypoints (getMapObjectByIdent Q WAYPOINT (icaoIdent entry) (queryRegion entry)))
              (FlightplanEntry.position entry) = (wp, True) \<and>
            distanceMeterTo E (MapWaypoint.position wp) (FlightplanEntry.position entry) > 10000"
    then have "resolveWaypoint E Q (queryRegion entry) entry (l\<lparr>index := entryIndex\<rparr>) w =
        (l\<lparr>index := entryIndex, type := WAYPOINT, waypoint := wp, valid := False\<rparr>,
         logged (GetMapObjectByIdent WAYPOINT (icaoIdent entry) (queryRegion entry)) w)"
      by (intro resolveWaypoint_far) simp_all
    with far have switch: "(case waypointType entry of
                      UNKNOWN \<Rightarrow> (l\<lparr>index := entryIndex\<rparr>, w)
                    | WaypointType.AIRPORT \<Rightarrow> resolveAirport E Q entry predRouteMapObj (l\<lparr>index := entryIndex\<rparr>) w
                    | INTERSECTION \<Rightarrow> resolveWaypoint E Q (queryRegion entry) entry (l\<lparr>index := entryIndex\<rparr>) w
                    | WaypointType.VOR \<Rightarrow> resolveVor E Q (queryRegion entry) entry (l\<lparr>index := entryIndex\<rparr>) w
                    | WaypointType.NDB \<Rightarrow> resolveNdb E Q (queryRegion entry) entry (l\<lparr>index := entryIndex\<rparr>) w
                    | WaypointType.USER \<Rightarrow> resolveUser entry (l\<lparr>index := entryIndex\<rparr>) w) =
        (l\<lparr>index := entryIndex, type := WAYPOINT, waypoint := wp, valid := False\<rparr>,
         logged (GetMapObjectByIdent WAYPOINT (icaoIdent entry) (queryRegion entry)) w)"
      by simp
    from createFromDatabaseByEntry_result [OF entry switch res]
    show "\<not> valid l' \<and> type l' = INVALID \<and> waypoint l' = wp \<and> flightplan w' = flightplan w"
      by (simp add: logged_def)
  qed
  have vorp: "waypointType entry = WaypointType.VOR \<and>
          findMapObject E MapVor.position (MapVor_default E)
            (vors (getMapObjectByIdent Q MapObjectTypes.VOR (icaoIdent entry) (queryRegion entry)))
            (FlightplanEntry.position entry) = (v, True) \<and>
          distanceMeterTo E (MapVor.position v) (FlightplanEntry.position entry) > 10000 \<longrightarrow>
      \<not> valid l' \<and> type l' = INVALID \<and> vor l' = v \<and> flightplan w' = flightplan w"
  proof
    assume far: "waypointType entry = WaypointType.VOR \<and>
            findMapObject E MapVor.position (MapVor_default E)
              (vors (getMapObjectByIdent Q MapObjectTypes.VOR (icaoIdent entry) (queryRegion entry)))
              (FlightplanEntry.position entry) = (v, True) \<and>
            distanceMeterTo E (MapVor.position v) (FlightplanEntry.position entry) > 10000"
    then have "resolveVor E Q (queryRegion entry) entry (l\<lparr>index := entryIndex\<rparr>) w =
        (l\<lparr>index := entryIndex, type := MapObjectTypes.VOR, vor := v, valid := False\<rparr>,
         logged (GetMapObjectByIdent MapObjectTypes.VOR (icaoIdent entry) (queryRegion entry)) w)"
      by (intro resolveVor_far) simp_all
    with far have switch: "(case waypointType entry of
                      UNKNOWN \<Rightarrow> (l\<lparr>index := entryIndex\<rparr>, w)
                    | WaypointType.AIRPORT \<Rightarrow> resolveAirport E Q entry predRouteMapObj (l\<lparr>index := entryIndex\<rparr>) w
                    | INTERSECTION \<Rightarrow> resolveWaypoint E Q (queryRegion entry) entry (l\<lparr>index := entryIndex\<rparr>) w
                    | WaypointType.VOR \<Rightarrow> resolveVor E Q (queryRegion entry) entry (l\<lparr>index := entryIndex\<rparr>) w
                    | WaypointType.NDB \<Rightarrow> resolveNdb E Q (queryRegion entry) entry (l\<lparr>index := entryIndex\<rparr>) w
                    | WaypointType.USER \<Rightarrow> resolveUser entry (l\<lparr>index := entryIndex\<rparr>) w) =
        (l\<lparr>index := entryIndex, type := MapObjectTypes.VOR, vor := v, valid := False\<rparr>,
         logged (GetMapObjectByIdent MapObjectTypes.VOR (icaoIdent entry) (queryRegion entry)) w)"
      by simp
    from createFromDatabaseByEntry_result [OF entry switch res]
    show "\<not> valid l' \<and> type l' = INVALID \<and> vor l' = v \<and> flightplan w' = flightplan w"
      by (simp add: logged_def)
  qed
  have ndbp: "waypointType entry = WaypointType.NDB \<and>
          findMapObject E MapNdb.position (MapNdb_default E)
            (ndbs (getMapObjectByIdent Q MapObjectTypes.NDB (icaoIdent entry) (queryRegion entry)))
            (FlightplanEntry.position entry) = (n, True) \<and>
          distanceMeterTo E (MapNdb.position n) (FlightplanEntry.position entry) > 10000 \<longrightarrow>
      \<not> valid l' \<and> type l' = INVALID \<and> ndb l' = n \<and> flightplan w' = flightplan w"
  proof
    assume far: "waypointType entry = WaypointType.NDB \<and>
            findMapObject E MapNdb.position (MapNdb_default E)
              (ndbs (getMapObjectByIdent Q MapObjectTypes.NDB (icaoIdent entry) (queryRegion entry)))
              (FlightplanEntry.position entry) = (n, True) \<and>
            distanceMeterTo E (MapNdb.position n) (FlightplanEntry.position entry) > 10000"
    then have "resolveNdb E Q (queryRegion entry) entry (l\<lparr>index := entryIndex\<rparr>) w =
        (l\<lparr>index := entryIndex, type := MapObjectTypes.NDB, ndb := n, valid := False\<rparr>,
         logged (GetMapObjectByIdent MapObjectTypes.NDB (icaoIdent entry) (queryRegion entry)) w)"
      by (intro resolveNdb_far) simp_all
    with far have switch: "(case waypointType entry of
                      UNKNOWN \<Rightarrow> (l\<lparr>index := entryIndex\<rparr>, w)
                    | WaypointType.AIRPORT \<Rightarrow> resolveAirport E Q entry predRouteMapObj (l\<lparr>index := entryIndex\<rparr>) w
                    | INTERSECTION \<Rightarrow> resolveWaypoint E Q (queryRegion entry) entry (l\<lparr>index := entryIndex\<rparr>) w
                    | WaypointType.VOR \<Rightarrow> resolveVor E Q (queryRegion entry) entry (l\<lparr>index := entryIndex\<rparr>) w
                    | WaypointType.NDB \<Rightarrow> resolveNdb E Q (queryRegion entry) entry (l\<lparr>index := entryIndex\<rparr>) w
                    | WaypointType.USER \<Rightarrow> resolveUser entry (l\<lparr>index := entryIndex\<rparr>) w) =
        (l\<lparr>index := entryIndex, type := MapObjectTypes.NDB, ndb := n, valid := False\<rparr>,
         logged (GetMapObjectByIdent MapObjectTypes.NDB (icaoIdent entry) (queryRegion entry)) w)"
      by simp
    from createFromDatabaseByEntry_result [OF entry switch res]
    show "\<not> valid l' \<and> type l' = INVALID \<and> ndb l' = n \<and> flightplan w' = flightplan w"
      by (simp add: logged_def)
  qed
  from wpt vorp ndbp show ?thesis by (intro conjI)
qed


theorem createFromDatabaseByEntry_beyond_tolerance_witness:
  "QList_at (entries (flightplan (exampleWorld [exampleEntry INTERSECTION ''ABC'' (20, 0)] []))) 0 =
     Inr (exampleEntry INTERSECTION ''ABC'' (20, 0)) \<and>
   createFromDatabaseByEntry exampleEnv exampleQuery 0 None exampleLeg
       (exampleWorld [exampleEntry INTERSECTION ''ABC'' (20, 0)] []) =
     Inr (exampleLeg\<lparr>type := INVALID, waypoint := exampleWaypoint 2 ''K2'' (1, 0),
            RouteMapObject.magvar := 2, RouteMapObject.geometry := [(20, 0)]\<rparr>,
          (exampleWorld [exampleEntry INTERSECTION ''ABC'' (20, 0)] [])
            \<lparr>queries := [GetMapObjectByIdent WAYPOINT ''ABC'' []]\<rparr>) \<and>
   waypointType (exampleEntry INTERSECTION ''ABC'' (20, 0)) = INTERSECTION \<and>
   findMapObject exampleEnv MapWaypoint.position (MapWaypoint_default exampleEnv)
       (waypoints (getMapObjectByIdent exampleQuery WAYPOINT ''ABC''
          (queryRegion (exampleEntry INTERSECTION ''ABC'' (20, 0))))) (20, 0) =
     (exampleWaypoint 2 ''K2'' (1, 0), True) \<and>
   distanceMeterTo exampleEnv (MapWaypoint.position (exampleWaypoint 2 ''K2'' (1, 0))) (20, 0) > 10000 \<and>
   \<not> valid (exampleLeg\<lparr>type := INVALID, waypoint := exampleWaypoint 2 ''K2'' (1, 0),
            RouteMapObject.magvar := 2, RouteMapObject.geometry := [(20, 0)]\<rparr>) \<and>
   flightplan ((exampleWorld [exampleEntry INTERSECTION ''ABC'' (20, 0)] [])
            \<lparr>queries := [GetMapObjectByIdent WAYPOINT ''ABC'' []]\<rparr>) =
     flightplan (exampleWorld [exampleEntry INTERSECTION ''ABC'' (20, 0)] [])"
proof -
  have entry: "QList_at (entries (flightplan (exampleWorld [exampleEntry INTERSECTION ''ABC'' (20, 0)] []))) 0 =
     Inr (exampleEntry INTERSECTION ''ABC'' (20, 0))"
    by (simp add: QList_at_def exampleWorld_def exampleFlightplan_def)
  have found: "findMapObject exampleEnv MapWaypoint.position (MapWaypoint_default exampleEnv)
       (waypoints (getMapObjectByIdent exampleQuery WAYPOINT ''ABC''
          (queryRegion (exampleEntry INTERSECTION ''ABC'' (20, 0))))) (20, 0) =
     (exampleWaypoint 2 ''K2'' (1, 0), True)"
    using exampleFind_far by (simp add: queryRegion_def exampleEntry_def)
  have far: "distanceMeterTo exampleEnv (MapWaypoint.position (exampleWaypoint 2 ''K2'' (1, 0))) (20, 0) > 10000"
    by (simp add: exampleEnv_def exampleWaypoint_def)
  from createFromDatabaseByEntry_beyond_tolerance [OF entry exampleRun_far,
      of "exampleWaypoint 2 ''K2'' (1, 0)"] entry found far exampleRun_far
  show ?thesis by (simp add: exampleEntry_def)
qed

text \<open>
  Claim C6 says that a leg whose lookup returns no candidates ends not valid and of kind
  Invalid. The switch leaves the member \<open>valid\<close> as it was: a leg that
  \<open>createFromAirport\<close> made valid and that is then resolved for the unknown VOR \<open>NOPE\<close>
  stays valid, of kind Airport.
\<close>

theorem createFromDatabaseByEntry_unresolved_counterexample:
  "noCandidates exampleQuery (exampleEntry WaypointType.VOR ''NOPE'' (0, 0)) \<and>
   createFromAirport exampleEnv (exampleFlightplan [exampleEntry WaypointType.VOR ''NOPE'' (0, 0)] []) 0
       (exampleAirport 10 ''EDDF'' (5, 0) True) None exampleLeg =
     Inr (exampleLeg\<lparr>type := MapObjectTypes.AIRPORT, airport := exampleAirport 10 ''EDDF'' (5, 0) True,
            RouteMapObject.magvar := 1, RouteMapObject.geometry := [(5, 0)], valid := True\<rparr>) \<and>
   createFromDatabaseByEntry exampleEnv exampleQuery 0 None
       (exampleLeg\<lparr>type := MapObjectTypes.AIRPORT, airport := exampleAirport 10 ''EDDF'' (5, 0) True,
            RouteMapObject.magvar := 1, RouteMapObject.geometry := [(5, 0)], valid := True\<rparr>)
       (exampleWorld [exampleEntry WaypointType.VOR ''NOPE'' (0, 0)] []) =
     Inr (exampleLeg\<lparr>type := MapObjectTypes.AIRPORT, airport := exampleAirport 10 ''EDDF'' (5, 0) True,
            RouteMapObject.magvar := 1, RouteMapObject.geometry := [(5, 0)], valid := True\<rparr>,
          (exampleWorld [exampleEntry WaypointType.VOR ''NOPE'' (0, 0)] [])
            \<lparr>queries := [GetMapObjectByIdent MapObjectTypes.VOR ''NOPE'' []]\<rparr>) \<and>
   valid (exampleLeg\<lparr>type := MapObjectTypes.AIRPORT, airport := exampleAirport 10 ''EDDF'' (5, 0) True,
            RouteMapObject.magvar := 1, RouteMapObject.geometry := [(5, 0)], valid := True\<rparr>) \<and>
   type (exampleLeg\<lparr>type := MapObjectTypes.AIRPORT, airport := exampleAirport 10 ''EDDF'' (5, 0) True,
            RouteMapObject.magvar := 1, RouteMapObject.geometry := [(5, 0)], valid := True\<rparr>) \<noteq> INVALID"
proof -
  let ?l0 = "exampleLeg\<lparr>type := MapObjectTypes.AIRPORT, airport := exampleAirport 10 ''EDDF'' (5, 0) True,
            RouteMapObject.magvar := 1, RouteMapObject.geometry := [(5, 0)], valid := True\<rparr>"
  have none: "noCandidates exampleQuery (exampleEntry WaypointType.VOR ''NOPE'' (0, 0))"
    by (simp add: noCandidates_def queryRegion_def exampleEntry_def exampleQuery_def exampleResult_def)
  have made: "createFromAirport exampleEnv (exampleFlightplan [exampleEntry WaypointType.VOR ''NOPE'' (0, 0)] []) 0
       (exampleAirport 10 ''EDDF'' (5, 0) True) None exampleLeg = Inr ?l0"
    by (simp add: createFromAirport_def updateMagvar_def updateDistanceAndCourse_def getPosition_def
        isAnyApproach_def exampleLeg_def exampleAirport_def)
  have upd: "updateDistanceAndCourse exampleEnv (exampleFlightplan [exampleEntry WaypointType.VOR ''NOPE'' (0, 0)] [])
      0 None (updateMagvar (?l0\<lparr>index := 0\<rparr>)) = Inr ?l0"
    by (simp add: updateMagvar_def updateDistanceAndCourse_def getPosition_def
        isAnyApproach_def exampleLeg_def exampleAirport_def)
  have run: "createFromDatabaseByEntry exampleEnv exampleQuery 0 None ?l0
       (exampleWorld [exampleEntry WaypointType.VOR ''NOPE'' (0, 0)] []) =
     Inr (?l0, (exampleWorld [exampleEntry WaypointType.VOR ''NOPE'' (0, 0)] [])
            \<lparr>queries := [GetMapObjectByIdent MapObjectTypes.VOR ''NOPE'' []]\<rparr>)"
    using upd by (simp add: exampleRun_none)
  from none made run show ?thesis by simp
qed

text \<open>What the switch leaves when the resolution fails.\<close>

lemma switch_noCandidates:
  assumes "noCandidates Q entry"
  shows "\<exists>c. (case waypointType entry of
                UNKNOWN \<Rightarrow> (l, w)
              | WaypointType.AIRPORT \<Rightarrow> resolveAirport E Q entry predRouteMapObj l w
              | INTERSECTION \<Rightarrow> resolveWaypoint E Q (queryRegion entry) entry l w
              | WaypointType.VOR \<Rightarrow> resolveVor E Q (queryRegion entry) entry l w
              | WaypointType.NDB \<Rightarrow> resolveNdb E Q (queryRegion entry) entry l w
              | WaypointType.USER \<Rightarrow> resolveUser entry l w) = (l, logged c w)"
  using assms
  by (cases "waypointType entry")
     (auto simp: noCandidates_def resolveAirport_none resolveWaypoint_none resolveVor_none
        resolveNdb_none)

lemma switch_bestMatchExceedsTolerance:
  assumes "bestMatchExceedsTolerance E Q entry"
  shows "\<exists>l1 c. (case waypointType entry of
                UNKNOWN \<Rightarrow> (l, w)
              | WaypointType.AIRPORT \<Rightarrow> resolveAirport E Q entry predRouteMapObj l w
              | INTERSECTION \<Rightarrow> resolveWaypoint E Q (queryRegion entry) entry l w
              | WaypointType.VOR \<Rightarrow> resolveVor E Q (queryRegion entry) entry l w
              | WaypointType.NDB \<Rightarrow> resolveNdb E Q (queryRegion entry) entry l w
              | WaypointType.USER \<Rightarrow> resolveUser entry l w) = (l1, logged c w) \<and> \<not> valid l1"
proof (cases "waypointType entry")
  case UNKNOWN
  with assms show ?thesis by (simp add: bestMatchExceedsTolerance_def)
next
  case AIRPORT
  with assms show ?thesis by (simp add: bestMatchExceedsTolerance_def)
next
  case INTERSECTION
  with assms obtain obj where
    "findMapObject E MapWaypoint.position (MapWaypoint_default E)
       (waypoints (getMapObjectByIdent Q WAYPOINT (icaoIdent entry) (queryRegion entry)))
       (FlightplanEntry.position entry) = (obj, True)"
    and "\<not> distanceMeterTo E (MapWaypoint.position obj) (FlightplanEntry.position entry) < 10000"
    by (auto simp: bestMatchExceedsTolerance_def split: prod.splits)
  from resolveWaypoint_far [OF this] INTERSECTION show ?thesis by auto
next
  case VOR
  with assms obtain obj where
    "findMapObject E MapVor.position (MapVor_default E)
       (vors (getMapObjectByIdent Q MapObjectTypes.VOR (icaoIdent entry) (queryRegion entry)))
       (FlightplanEntry.position entry) = (obj, True)"
    and "\<not> distanceMeterTo E (MapVor.position obj) (FlightplanEntry.position entry) < 10000"
    by (auto simp: bestMatchExceedsTolerance_def split: prod.splits)
  from resolveVor_far [OF this] VOR show ?thesis by auto
next
  case NDB
  with assms obtain obj where
    "findMapObject E MapNdb.position (MapNdb_default E)
       (ndbs (getMapObjectByIdent Q MapObjectTypes.NDB (icaoIdent entry) (queryRegion entry)))
       (FlightplanEntry.position entry) = (obj, True)"
    and "\<not> distanceMeterTo E (MapNdb.position obj) (FlightplanEntry.position entry) < 10000"
    by (auto simp: bestMatchExceedsTolerance_def split: prod.splits)
  from resolveNdb_far [OF this] NDB show ?thesis by auto
next
  case USER
  with assms show ?thesis by (simp add: bestMatchExceedsTolerance_def)
qed

text \<open>
  Claim C6, amended. Let \<open>createFromDatabaseByEntry\<close> return on an entry whose resolution
  fails: the lookup returns no candidates, or the nearest candidate is farther than the
  tolerance. In every such case the flight plan, so region, identifier and position of the
  entry, is unchanged. The leg ends with the kind Invalid and not valid when the nearest
  candidate is farther than the tolerance, and when the lookup returns no candidates and
  the leg was not valid before the call (as a leg is that no operation has made valid).
  When the lookup returns no candidates and the leg was valid before the call, the leg
  stays valid and keeps the kind it had.
\<close>

theorem createFromDatabaseByEntry_unresolved:
  assumes entry: "QList_at (entries (flightplan w)) entryIndex = Inr entry"
    and res: "createFromDatabaseByEntry E Q entryIndex predRouteMapObj l w = Inr (l', w')"
  shows "(noCandidates Q entry \<or> bestMatchExceedsTolerance E Q entry \<longrightarrow>
            flightplan w' = flightplan w) \<and>
         (noCandidates Q entry \<and> \<not> valid l \<or> bestMatchExceedsTolerance E Q entry \<longrightarrow>
            type l' = INVALID \<and> \<not> valid l' \<and> flightplan w' = flightplan w) \<and>
         (noCandidates Q entry \<and> valid l \<longrightarrow>
            valid l' \<and> type l' = type l \<and> flightplan w' = flightplan w)"
proof -
  have none: "valid l' = valid l \<and> type l' = (if valid l then type l else INVALID) \<and>
      flightplan w' = flightplan w" if "noCandidates Q entry"
  proof -
    from switch_noCandidates [OF that, of "l\<lparr>index := entryIndex\<rparr>" w E predRouteMapObj]
    obtain c where switch: "(case waypointType entry of
                UNKNOWN \<Rightarrow> (l\<lparr>index := entryIndex\<rparr>, w)
              | WaypointType.AIRPORT \<Rightarrow> resolveAirport E Q entry predRouteMapObj (l\<lparr>index := entryIndex\<rparr>) w
              | INTERSECTION \<Rightarrow> resolveWaypoint E Q (queryRegion entry) entry (l\<lparr>index := entryIndex\<rparr>) w
              | WaypointType.VOR \<Rightarrow> resolveVor E Q (queryRegion entry) entry (l\<lparr>index := entryIndex\<rparr>) w
              | WaypointType.NDB \<Rightarrow> resolveNdb E Q (queryRegion entry) entry (l\<lparr>index := entryIndex\<rparr>) w
              | WaypointType.USER \<Rightarrow> resolveUser entry (l\<lparr>index := entryIndex\<rparr>) w) =
          (l\<lparr>index := entryIndex\<rparr>, logged c w)"
      by blast
    from createFromDatabaseByEntry_result(1,2,3) [OF entry switch res]
    show ?thesis by (simp add: logged_def)
  qed
  have far: "type l' = INVALID \<and> \<not> valid l' \<and> flightplan w' = flightplan w"
    if "bestMatchExceedsTolerance E Q entry"
  proof -
    from switch_bestMatchExceedsTolerance [OF that, of "l\<lparr>index := entryIndex\<rparr>" w predRouteMapObj]
    obtain l1 c where switch: "(case waypointType entry of
                UNKNOWN \<Rightarrow> (l\<lparr>index := entryIndex\<rparr>, w)
              | WaypointType.AIRPORT \<Rightarrow> resolveAirport E Q entry predRouteMapObj (l\<lparr>index := entryIndex\<rparr>) w
              | INTERSECTION \<Rightarrow> resolveWaypoint E Q (queryRegion entry) entry (l\<lparr>index := entryIndex\<rparr>) w
              | WaypointType.VOR \<Rightarrow> resolveVor E Q (queryRegion entry) entry (l\<lparr>index := entryIndex\<rparr>) w
              | WaypointType.NDB \<Rightarrow> resolveNdb E Q (queryRegion entry) entry (l\<lparr>index := entryIndex\<rparr>) w
              | WaypointType.USER \<Rightarrow> resolveUser entry (l\<lparr>index := entryIndex\<rparr>) w) =
          (l1, logged c w)"
      and invalid: "\<not> valid l1"
      by blast
    from createFromDatabaseByEntry_result(1,2,3) [OF entry switch res] invalid
    show ?thesis by (simp add: logged_def)
  qed
  from none far show ?thesis by auto
qed

theorem createFromDatabaseByEntry_unresolved_witness:
  "noCandidates exampleQuery (exampleEntry WaypointType.VOR ''NOPE'' (0, 0)) \<and> \<not> valid exampleLeg \<and>
   createFromDatabaseByEntry exampleEnv exampleQuery 0 None exampleLeg
       (exampleWorld [exampleEntry WaypointType.VOR ''NOPE'' (0, 0)] []) =
     Inr (exampleLeg\<lparr>type := INVALID, RouteMapObject.geometry := [(0, 0)]\<rparr>,
          (exampleWorld [exampleEntry WaypointType.VOR ''NOPE'' (0, 0)] [])
            \<lparr>queries := [GetMapObjectByIdent MapObjectTypes.VOR ''NOPE'' []]\<rparr>) \<and>
   type (exampleLeg\<lparr>type := INVALID, RouteMapObject.geometry := [(0, 0)]\<rparr>) = INVALID \<and>
   bestMatchExceedsTolerance exampleEnv exampleQuery (exampleEntry INTERSECTION ''ABC'' (20, 0)) \<and>
   createFromDatabaseByEntry exampleEnv exampleQuery 0 None exampleLeg
       (exampleWorld [exampleEntry INTERSECTION ''ABC'' (20, 0)] []) =
     Inr (exampleLeg\<lparr>type := INVALID, waypoint := exampleWaypoint 2 ''K2'' (1, 0),
            RouteMapObject.magvar := 2, RouteMapObject.geometry := [(20, 0)]\<rparr>,
          (exampleWorld [exampleEntry INTERSECTION ''ABC'' (20, 0)] [])
            \<lparr>queries := [GetMapObjectByIdent WAYPOINT ''ABC'' []]\<rparr>) \<and>
   type (exampleLeg\<lparr>type := INVALID, waypoint := exampleWaypoint 2 ''K2'' (1, 0),
            RouteMapObject.magvar := 2, RouteMapObject.geometry := [(20, 0)]\<rparr>) = INVALID \<and>
   valid (exampleLeg\<lparr>type := MapObjectTypes.AIRPORT, airport := exampleAirport 10 ''EDDF'' (5, 0) True,
            RouteMapObject.magvar := 1, RouteMapObject.geometry := [(5, 0)], valid := True\<rparr>) \<and>
   createFromDatabaseByEntry exampleEnv exampleQuery 0 None
       (exampleLeg\<lparr>type := MapObjectTypes.AIRPORT, airport := exampleAirport 10 ''EDDF'' (5, 0) True,
            RouteMapObject.magvar := 1, RouteMapObject.geometry := [(5, 0)], valid := True\<rparr>)
       (exampleWorld [exampleEntry WaypointType.VOR ''NOPE'' (0, 0)] []) =
     Inr (exampleLeg\<lparr>type := MapObjectTypes.AIRPORT, airport := exampleAirport 10 ''EDDF'' (5, 0) True,
            RouteMapObject.magvar := 1, RouteMapObject.geometry := [(5, 0)], valid := True\<rparr>,
          (exampleWorld [exampleEntry WaypointType.VOR ''NOPE'' (0, 0)] [])
            \<lparr>queries := [GetMapObjectByIdent MapObjectTypes.VOR ''NOPE'' []]\<rparr>) \<and>
   flightplan ((exampleWorld [exampleEntry WaypointType.VOR ''NOPE'' (0, 0)] [])
            \<lparr>queries := [GetMapObjectByIdent MapObjectTypes.VOR ''NOPE'' []]\<rparr>) =
     flightplan (exampleWorld [exampleEntry WaypointType.VOR ''NOPE'' (0, 0)] [])"
proof -
  let ?l0 = "exampleLeg\<lparr>type := MapObjectTypes.AIRPORT, airport := exampleAirport 10 ''EDDF'' (5, 0) True,
            RouteMapObject.magvar := 1, RouteMapObject.geometry := [(5, 0)], valid := True\<rparr>"
  have none: "noCandidates exampleQuery (exampleEntry WaypointType.VOR ''NOPE'' (0, 0))"
    by (simp add: noCandidates_def queryRegion_def exampleEntry_def exampleQuery_def exampleResult_def)
  have fresh: "\<not> valid exampleLeg" by (simp add: exampleLeg_def)
  have made: "valid ?l0" by simp
  have entry1: "QList_at (entries (flightplan (exampleWorld [exampleEntry WaypointType.VOR ''NOPE'' (0, 0)] []))) 0 =
     Inr (exampleEntry WaypointType.VOR ''NOPE'' (0, 0))"
    by (simp add: QList_at_def exampleWorld_def exampleFlightplan_def)
  have run1: "createFromDatabaseByEntry exampleEnv exampleQuery 0 None exampleLeg
       (exampleWorld [exampleEntry WaypointType.VOR ''NOPE'' (0, 0)] []) =
     Inr (exampleLeg\<lparr>type := INVALID, RouteMapObject.geometry := [(0, 0)]\<rparr>,
          (exampleWorld [exampleEntry WaypointType.VOR ''NOPE'' (0, 0)] [])
            \<lparr>queries := [GetMapObjectByIdent MapObjectTypes.VOR ''NOPE'' []]\<rparr>)"
  proof -
    have "updateDistanceAndCourse exampleEnv (exampleFlightplan [exampleEntry WaypointType.VOR ''NOPE'' (0, 0)] [])
        0 None (updateMagvar (exampleLeg\<lparr>index := 0, type := INVALID\<rparr>)) =
      Inr (exampleLeg\<lparr>type := INVALID, RouteMapObject.geometry := [(0, 0)]\<rparr>)"
      by (simp add: updateMagvar_def updateDistanceAndCourse_def getPosition_def
          curEntry_def isRoute_def isAnyApproach_def QList_at_def exampleFlightplan_def exampleEntry_def
          exampleLeg_def exampleAirport_def exampleEnv_def)
    with fresh show ?thesis by (simp add: exampleRun_none)
  qed
  have run3: "createFromDatabaseByEntry exampleEnv exampleQuery 0 None ?l0
       (exampleWorld [exampleEntry WaypointType.VOR ''NOPE'' (0, 0)] []) =
     Inr (?l0, (exampleWorld [exampleEntry WaypointType.VOR ''NOPE'' (0, 0)] [])
            \<lparr>queries := [GetMapObjectByIdent MapObjectTypes.VOR ''NOPE'' []]\<rparr>)"
  proof -
    have "updateDistanceAndCourse exampleEnv (exampleFlightplan [exampleEntry WaypointType.VOR ''NOPE'' (0, 0)] [])
        0 None (updateMagvar (?l0\<lparr>index := 0\<rparr>)) = Inr ?l0"
      by (simp add: updateMagvar_def updateDistanceAndCourse_def getPosition_def
          isAnyApproach_def exampleLeg_def exampleAirport_def)
    then show ?thesis by (simp add: exampleRun_none)
  qed
  have far: "bestMatchExceedsTolerance exampleEnv exampleQuery (exampleEntry INTERSECTION ''ABC'' (20, 0))"
    using exampleFind_far
    by (simp add: bestMatchExceedsTolerance_def queryRegion_def exampleEntry_def exampleEnv_def
        exampleWaypoint_def)
  have entry2: "QList_at (entries (flightplan (exampleWorld [exampleEntry INTERSECTION ''ABC'' (20, 0)] []))) 0 =
     Inr (exampleEntry INTERSECTION ''ABC'' (20, 0))"
    by (simp add: QList_at_def exampleWorld_def exampleFlightplan_def)
  from createFromDatabaseByEntry_unresolved [OF entry1 run1]
    createFromDatabaseByEntry_unresolved [OF entry2 exampleRun_far]
    createFromDatabaseByEntry_unresolved [OF entry1 run3]
    none fresh made far run1 run3 exampleRun_far
  show ?thesis by simp
qed

subsection \<open>The departure parking name\<close>

lemma parse_GATE_12:
  "trimmed ''GATE 12'' = ''GATE 12''"
  "PARKING_TO_NAME_AND_NUM_match ''GATE 12'' = Some (''GATE '', ''12'')"
  "replace (CHR '' '') (CHR ''_'') (toUpper (trimmed ''GATE '')) = ''GATE''"
  "toInt ''12'' = 12"
  by (simp_all add: trimmed_def isSpace_def PARKING_TO_NAME_AND_NUM_here_def isNameChar_def isDigit_def
      replace_def toUpper_def toInt_def digitValue_def Let_def)

lemma parse_04:
  "trimmed ''04'' = ''04''"
  "PARKING_TO_NAME_AND_NUM_match ''04'' = Some ([], ''04'')"
  "replace (CHR '' '') (CHR ''_'') (toUpper (trimmed [])) = []"
  by (simp_all add: trimmed_def isSpace_def PARKING_TO_NAME_AND_NUM_here_def isNameChar_def isDigit_def
      replace_def toUpper_def)


lemma resolveAirport_parking:
  assumes "airports (getMapObjectByIdent Q MapObjectTypes.AIRPORT (icaoIdent entry) []) = a # rest"
    and "departureParkingName (flightplan w) = ''GATE 12''"
  shows "\<exists>l1 w1. resolveAirport E Q entry None l w = (l1, w1) \<and> valid l1 \<and>
           queries w1 = queries w @
             [GetMapObjectByIdent MapObjectTypes.AIRPORT (icaoIdent entry) [],
              GetParkingByNameAndNumber (MapAirport.db_id a) (parkingDatabaseName E ''GATE'') 12] \<and>
           entries (flightplan w1) = entries (flightplan w)"
  using assms
  by (simp add: resolveAirport_def logged_def setDepartureParkingName_def parse_GATE_12 captured_def
      Let_def del: PARKING_TO_NAME_AND_NUM_match.simps split: list.splits)

lemma resolveAirport_start:
  assumes "airports (getMapObjectByIdent Q MapObjectTypes.AIRPORT (icaoIdent entry) []) = a # rest"
    and "departureParkingName (flightplan w) = ''04''"
  shows "\<exists>l1 w1. resolveAirport E Q entry None l w = (l1, w1) \<and> valid l1 \<and>
           queries w1 = queries w @
             [GetMapObjectByIdent MapObjectTypes.AIRPORT (icaoIdent entry) [],
              GetStartByNameAndPos (MapAirport.db_id a) ''04'' (departurePosition (flightplan w))] \<and>
           entries (flightplan w1) = entries (flightplan w)"
  using assms
  by (simp add: resolveAirport_def logged_def setDepartureParkingName_def parse_04 captured_def
      Let_def del: PARKING_TO_NAME_AND_NUM_match.simps)

lemma createFromDatabaseByEntry_airport_returns:
  assumes entry: "QList_at (entries (flightplan w)) entryIndex = Inr entry"
    and airport: "waypointType entry = WaypointType.AIRPORT"
    and switch: "resolveAirport E Q entry None (l\<lparr>index := entryIndex\<rparr>) w = (l1, w1)"
    and same: "entries (flightplan w1) = entries (flightplan w)"
  shows "\<exists>l'. createFromDatabaseByEntry E Q entryIndex None l w = Inr (l', w1)"
proof -
  let ?l2 = "updateMagvar (if \<not> valid l1 then l1\<lparr>type := INVALID\<rparr> else l1)"
  from entry have range: "0 \<le> entryIndex \<and> entryIndex < int (length (entries (flightplan w1)))"
    by (simp add: QList_at_def same split: if_splits)
  then have "\<exists>l'. updateDistanceAndCourse E (flightplan w1) entryIndex None ?l2 = Inr l'"
    by (intro updateDistanceAndCourse_returns) simp_all
  then obtain l' where upd: "updateDistanceAndCourse E (flightplan w1) entryIndex None ?l2 = Inr l'"
    by blast
  have "(case waypointType entry of
           UNKNOWN \<Rightarrow> (l\<lparr>index := entryIndex\<rparr>, w)
         | WaypointType.AIRPORT \<Rightarrow> resolveAirport E Q entry None (l\<lparr>index := entryIndex\<rparr>) w
         | INTERSECTION \<Rightarrow> resolveWaypoint E Q (if icaoRegion entry = ''KK'' then [] else icaoRegion entry)
             entry (l\<lparr>index := entryIndex\<rparr>) w
         | WaypointType.VOR \<Rightarrow> resolveVor E Q (if icaoRegion entry = ''KK'' then [] else icaoRegion entry)
             entry (l\<lparr>index := entryIndex\<rparr>) w
         | WaypointType.NDB \<Rightarrow> resolveNdb E Q (if icaoRegion entry = ''KK'' then [] else icaoRegion entry)
             entry (l\<lparr>index := entryIndex\<rparr>) w
         | WaypointType.USER \<Rightarrow> resolveUser entry (l\<lparr>index := entryIndex\<rparr>) w) = (l1, w1)"
    using airport switch by simp
  from createFromDatabaseByEntry_after_switch [OF entry this] upd show ?thesis by simp
qed

text \<open>
  Claim C8 says that the parking name \<open>GATE 12\<close> yields the letter prefix \<open>GATE_\<close>. The
  captured letters \<open>GATE \<close> are trimmed before the spaces are replaced, so the trailing
  space is gone and the prefix is \<open>GATE\<close>.
\<close>

theorem parking_name_counterexample:
  "captured 1 (PARKING_TO_NAME_AND_NUM_match (trimmed ''GATE 12'')) = ''GATE '' \<and>
   replace (CHR '' '') (CHR ''_'')
       (toUpper (trimmed (captured 1 (PARKING_TO_NAME_AND_NUM_match (trimmed ''GATE 12''))))) = ''GATE'' \<and>
   replace (CHR '' '') (CHR ''_'')
       (toUpper (trimmed (captured 1 (PARKING_TO_NAME_AND_NUM_match (trimmed ''GATE 12''))))) \<noteq> ''GATE_''"
  by (simp add: parse_GATE_12 captured_def del: PARKING_TO_NAME_AND_NUM_match.simps)

text \<open>
  Claim C8, amended. The parking name \<open>GATE 12\<close> yields the letter prefix \<open>GATE\<close> (the
  captured letters \<open>GATE \<close> trimmed, upper-cased, spaces replaced by underscores) and the
  number 12; resolving the first leg, an airport that the database knows, then looks up
  the parking spot by the database name of \<open>GATE\<close> and the number 12 and makes no start
  lookup. The name \<open>04\<close> yields an empty letter prefix, and the resolution looks up the
  start position by the name \<open>04\<close> and the departure position, and no parking.
\<close>

theorem parking_name:
  assumes entry: "QList_at (entries (flightplan w)) entryIndex = Inr entry"
    and airport: "waypointType entry = WaypointType.AIRPORT"
    and found: "airports (getMapObjectByIdent Q MapObjectTypes.AIRPORT (icaoIdent entry) []) = a # rest"
  shows "replace (CHR '' '') (CHR ''_'')
             (toUpper (trimmed (captured 1 (PARKING_TO_NAME_AND_NUM_match (trimmed ''GATE 12''))))) = ''GATE'' \<and>
         toInt (captured 2 (PARKING_TO_NAME_AND_NUM_match (trimmed ''GATE 12''))) = 12 \<and>
         replace (CHR '' '') (CHR ''_'')
             (toUpper (trimmed (captured 1 (PARKING_TO_NAME_AND_NUM_match (trimmed ''04''))))) = [] \<and>
         (departureParkingName (flightplan w) = ''GATE 12'' \<longrightarrow>
            (\<exists>l' w'. createFromDatabaseByEntry E Q entryIndex None l w = Inr (l', w') \<and>
               queries w' = queries w @
                 [GetMapObjectByIdent MapObjectTypes.AIRPORT (icaoIdent entry) [],
                  GetParkingByNameAndNumber (MapAirport.db_id a) (parkingDatabaseName E ''GATE'') 12])) \<and>
         (departureParkingName (flightplan w) = ''04'' \<longrightarrow>
            (\<exists>l' w'. createFromDatabaseByEntry E Q entryIndex None l w = Inr (l', w') \<and>
               queries w' = queries w @
                 [GetMapObjectByIdent MapObjectTypes.AIRPORT (icaoIdent entry) [],
                  GetStartByNameAndPos (MapAirport.db_id a) ''04'' (departurePosition (flightplan w))]))"
proof -
  have parking: "departureParkingName (flightplan w) = ''GATE 12'' \<longrightarrow>
            (\<exists>l' w'. createFromDatabaseByEntry E Q entryIndex None l w = Inr (l', w') \<and>
               queries w' = queries w @
                 [GetMapObjectByIdent MapObjectTypes.AIRPORT (icaoIdent entry) [],
                  GetParkingByNameAndNumber (MapAirport.db_id a) (parkingDatabaseName E ''GATE'') 12])"
  proof
    assume "departureParkingName (flightplan w) = ''GATE 12''"
    from resolveAirport_parking [OF found this, of E "l\<lparr>index := entryIndex\<rparr>"]
    obtain l1 w1 where
      switch: "resolveAirport E Q entry None (l\<lparr>index := entryIndex\<rparr>) w = (l1, w1)" and
      log: "queries w1 = queries w @
             [GetMapObjectByIdent MapObjectTypes.AIRPORT (icaoIdent entry) [],
              GetParkingByNameAndNumber (MapAirport.db_id a) (parkingDatabaseName E ''GATE'') 12]" and
      same: "entries (flightplan w1) = entries (flightplan w)"
      by blast
    from createFromDatabaseByEntry_airport_returns [OF entry airport switch same] log
    show "\<exists>l' w'. createFromDatabaseByEntry E Q entryIndex None l w = Inr (l', w') \<and>
               queries w' = queries w @
                 [GetMapObjectByIdent MapObjectTypes.AIRPORT (icaoIdent entry) [],
                  GetParkingByNameAndNumber (MapAirport.db_id a) (parkingDatabaseName E ''GATE'') 12]"
      by blast
  qed
  have start: "departureParkingName (flightplan w) = ''04'' \<longrightarrow>
            (\<exists>l' w'. createFromDatabaseByEntry E Q entryIndex None l w = Inr (l', w') \<and>
               queries w' = queries w @
                 [GetMapObjectByIdent MapObjectTypes.AIRPORT (icaoIdent entry) [],
                  GetStartByNameAndPos (MapAirport.db_id a) ''04'' (departurePosition (flightplan w))])"
  proof
    assume "departureParkingName (flightplan w) = ''04''"
    from resolveAirport_start [OF found this, of E "l\<lparr>index := entryIndex\<rparr>"]
    obtain l1 w1 where
      switch: "resolveAirport E Q entry None (l\<lparr>index := entryIndex\<rparr>) w = (l1, w1)" and
      log: "queries w1 = queries w @
             [GetMapObjectByIdent MapObjectTypes.AIRPORT (icaoIdent entry) [],
              GetStartByNameAndPos (MapAirport.db_id a) ''04'' (departurePosition (flightplan w))]" and
      same: "entries (flightplan w1) = entries (flightplan w)"
      by blast
    from createFromDatabaseByEntry_airport_returns [OF entry airport switch same] log
    show "\<exists>l' w'. createFromDatabaseByEntry E Q entryIndex None l w = Inr (l', w') \<and>
               queries w' = queries w @
                 [GetMapObjectByIdent MapObjectTypes.AIRPORT (icaoIdent entry) [],
                  GetStartByNameAndPos (MapAirport.db_id a) ''04'' (departurePosition (flightplan w))]"
      by blast
  qed
  from parking start show ?thesis
    by (simp add: parse_GATE_12 parse_04 captured_def del: PARKING_TO_NAME_AND_NUM_match.simps)
qed

theorem parking_name_witness:
  "QList_at (entries (flightplan (exampleWorld [exampleEntry WaypointType.AIRPORT ''EDDF'' (5, 0)] ''GATE 12''))) 0 =
     Inr (exampleEntry WaypointType.AIRPORT ''EDDF'' (5, 0)) \<and>
   waypointType (exampleEntry WaypointType.AIRPORT ''EDDF'' (5, 0)) = WaypointType.AIRPORT \<and>
   airports (getMapObjectByIdent exampleQuery MapObjectTypes.AIRPORT ''EDDF'' []) =
     [exampleAirport 10 ''EDDF'' (5, 0) True] \<and>
   (\<exists>l' w'. createFromDatabaseByEntry exampleEnv exampleQuery 0 None exampleLeg
        (exampleWorld [exampleEntry WaypointType.AIRPORT ''EDDF'' (5, 0)] ''GATE 12'') = Inr (l', w') \<and>
      queries w' = [GetMapObjectByIdent MapObjectTypes.AIRPORT ''EDDF'' [],
                    GetParkingByNameAndNumber 10 ''GATE'' 12]) \<and>
   (\<exists>l' w'. createFromDatabaseByEntry exampleEnv exampleQuery 0 None exampleLeg
        (exampleWorld [exampleEntry WaypointType.AIRPORT ''EDDF'' (5, 0)] ''04'') = Inr (l', w') \<and>
      queries w' = [GetMapObjectByIdent MapObjectTypes.AIRPORT ''EDDF'' [],
                    GetStartByNameAndPos 10 ''04'' (0, 0)])"
proof -
  have found: "airports (getMapObjectByIdent exampleQuery MapObjectTypes.AIRPORT
       (icaoIdent (exampleEntry WaypointType.AIRPORT ''EDDF'' (5, 0))) []) = exampleAirport 10 ''EDDF'' (5, 0) True # []"
    by (simp add: exampleQuery_def exampleResult_def exampleEntry_def)
  have kind: "waypointType (exampleEntry WaypointType.AIRPORT ''EDDF'' (5, 0)) = WaypointType.AIRPORT"
    by (simp add: exampleEntry_def)
  have entry: "QList_at (entries (flightplan (exampleWorld [exampleEntry WaypointType.AIRPORT ''EDDF'' (5, 0)] s))) 0 =
     Inr (exampleEntry WaypointType.AIRPORT ''EDDF'' (5, 0))" for s
    by (simp add: QList_at_def exampleWorld_def exampleFlightplan_def)
  from parking_name [OF entry kind found, of "''GATE 12''" exampleEnv exampleLeg]
    parking_name [OF entry kind found, of "''04''" exampleEnv exampleLeg]
    entry [of "''GATE 12''"] kind found
  show ?thesis
    by (simp add: exampleWorld_def exampleFlightplan_def exampleEnv_def exampleAirport_def
        exampleEntry_def)
qed

subsection \<open>Backfill of the magnetic variation\<close>

text \<open>
  The two loops are searches in the list of the magnetic variations of the route: the
  first from the start index down to 0, the second from the start index up to the end.
\<close>

lemma updateInvalidMagvar_down_find:
  "n < length routeList \<Longrightarrow>
   updateInvalidMagvar_down E st routeList (int n) m =
     Inr (case find (\<lambda>v. almostNotEqual E v 0)
                 (rev (take (Suc n) (map (\<lambda>a. RouteMapObject.magvar (st a)) routeList))) of
            Some v \<Rightarrow> v | None \<Rightarrow> m)"
proof (induction n)
  case 0
  then have first: "take (Suc 0) (map (\<lambda>a. RouteMapObject.magvar (st a)) routeList) =
      [RouteMapObject.magvar (st (routeList ! 0))]"
    by (cases routeList) simp_all
  have below: "updateInvalidMagvar_down E st routeList (- 1) m = Inr m"
    by (subst updateInvalidMagvar_down.simps) simp
  have "updateInvalidMagvar_down E st routeList (int 0) m =
      (if almostNotEqual E (RouteMapObject.magvar (st (routeList ! 0))) 0
       then Inr (RouteMapObject.magvar (st (routeList ! 0))) else Inr m)"
    using 0 below by (subst updateInvalidMagvar_down.simps) (simp add: QList_at_def)
  with first show ?case by simp
next
  case (Suc n)
  then have n: "n < length routeList" by simp
  have last: "take (Suc (Suc n)) (map (\<lambda>a. RouteMapObject.magvar (st a)) routeList) =
      take (Suc n) (map (\<lambda>a. RouteMapObject.magvar (st a)) routeList) @
      [RouteMapObject.magvar (st (routeList ! Suc n))]"
    using Suc.prems by (simp add: take_Suc_conv_app_nth [of "Suc n"])
  have "updateInvalidMagvar_down E st routeList (int (Suc n)) m =
      (if almostNotEqual E (RouteMapObject.magvar (st (routeList ! Suc n))) 0
       then Inr (RouteMapObject.magvar (st (routeList ! Suc n)))
       else updateInvalidMagvar_down E st routeList (int n) m)"
  proof -
    have idx: "nat (1 + int n) = Suc n" by linarith
    show ?thesis
      using Suc.prems by (subst updateInvalidMagvar_down.simps) (simp add: QList_at_def idx)
  qed
  with Suc.IH [OF n] show ?case unfolding last by simp
qed

lemma updateInvalidMagvar_up_find:
  "n \<le> length routeList \<Longrightarrow>
   updateInvalidMagvar_up E st routeList (int n) m =
     Inr (case find (\<lambda>v. almostNotEqual E v 0)
                 (drop n (map (\<lambda>a. RouteMapObject.magvar (st a)) routeList)) of
            Some v \<Rightarrow> v | None \<Rightarrow> m)"
proof (induction "length routeList - n" arbitrary: n)
  case 0
  then have "n = length routeList" by simp
  then show ?case
    by (subst updateInvalidMagvar_up.simps) simp
next
  case (Suc k)
  then have n: "n < length routeList" and k: "k = length routeList - Suc n" by simp_all
  have first: "drop n (map (\<lambda>a. RouteMapObject.magvar (st a)) routeList) =
      RouteMapObject.magvar (st (routeList ! n)) #
      drop (Suc n) (map (\<lambda>a. RouteMapObject.magvar (st a)) routeList)"
    using n by (simp add: Cons_nth_drop_Suc [symmetric])
  from n have "Suc n \<le> length routeList" by simp
  note IH = Suc.hyps(1) [OF k this]
  have "int n + 1 = int (Suc n)" by simp
  then have "updateInvalidMagvar_up E st routeList (int n) m =
      (if almostNotEqual E (RouteMapObject.magvar (st (routeList ! n))) 0
       then Inr (RouteMapObject.magvar (st (routeList ! n)))
       else updateInvalidMagvar_up E st routeList (int (Suc n)) m)"
    using n by (subst updateInvalidMagvar_up.simps) (simp add: QList_at_def add.commute)
  with IH show ?case unfolding first by simp
qed

lemma setMagvar_twice: "setMagvar this v (setMagvar this u st) = setMagvar this v st"
  by (simp add: setMagvar_def fun_eq_iff)

text \<open>
  Claim C5. Let the index be inside the route list, and let \<open>almostNotEqual\<close> to zero
  hold of non-zero values only. For a leg of kind User or Invalid \<open>updateInvalidMagvar\<close>
  sets the magnetic variation of the leg to zero, finds the first magnetic variation that
  \<open>almostNotEqual\<close> tells from zero among the legs from the index down to 0, and the first
  among the legs from the index up to the end, and leaves the leg with the mean of the two
  if both are found, the one that is found if only one is, and zero if none is. For a leg
  of any other kind nothing changes. The route \<open>[5, 0 (User), 9]\<close> gives 7.
\<close>

theorem updateInvalidMagvar_backfill:
  assumes nonzero: "\<forall>v. almostNotEqual E v 0 \<longrightarrow> v \<noteq> 0"
    and range: "0 \<le> entryIndex \<and> entryIndex < int (length routeList)"
  shows "updateInvalidMagvar E entryIndex routeList this st =
     (if type (st this) = MapObjectTypes.USER \<or> type (st this) = INVALID then
        (let magvars = map (\<lambda>a. RouteMapObject.magvar (setMagvar this 0 st a)) routeList;
             down = find (\<lambda>v. almostNotEqual E v 0) (rev (take (nat entryIndex + 1) magvars));
             up = find (\<lambda>v. almostNotEqual E v 0) (drop (nat entryIndex) magvars)
         in Inr (setMagvar this
                   (case (down, up) of
                      (Some a, Some b) \<Rightarrow> (a + b) / 2
                    | (Some a, None) \<Rightarrow> a
                    | (None, Some b) \<Rightarrow> b
                    | (None, None) \<Rightarrow> 0) st))
      else Inr st)"
proof (cases "type (st this) = MapObjectTypes.USER \<or> type (st this) = INVALID")
  case False
  then show ?thesis by (simp add: updateInvalidMagvar_def)
next
  case True
  let ?st = "setMagvar this 0 st"
  let ?magvars = "map (\<lambda>a. RouteMapObject.magvar (?st a)) routeList"
  let ?nz = "\<lambda>v. almostNotEqual E v 0"
  from range have n: "nat entryIndex < length routeList" and i: "int (nat entryIndex) = entryIndex"
    by linarith+
  from range have start: "min entryIndex (int (length routeList) - 1) = entryIndex" by simp
  have down: "updateInvalidMagvar_down E ?st routeList entryIndex 0 =
      Inr (case find ?nz (rev (take (nat entryIndex + 1) ?magvars)) of Some v \<Rightarrow> v | None \<Rightarrow> 0)"
    using updateInvalidMagvar_down_find [OF n, of E ?st 0] unfolding i by (simp only: Suc_eq_plus1)
  have up: "updateInvalidMagvar_up E ?st routeList entryIndex 0 =
      Inr (case find ?nz (drop (nat entryIndex) ?magvars) of Some v \<Rightarrow> v | None \<Rightarrow> 0)"
    using updateInvalidMagvar_up_find [of "nat entryIndex" routeList E ?st 0] n unfolding i by simp
  have found: "find ?nz xs = Some v \<Longrightarrow> \<bar>v\<bar> > 0" for xs v
    using nonzero by (auto simp: find_Some_iff)
  show ?thesis
  proof (cases "find ?nz (rev (take (nat entryIndex + 1) ?magvars))")
    case None
    note d = None
    show ?thesis
    proof (cases "find ?nz (drop (nat entryIndex) ?magvars)")
      case None
      with d True down up start show ?thesis
        by (simp add: updateInvalidMagvar_def Let_def)
    next
      case (Some b)
      with d True down up start found [OF Some] show ?thesis
        by (simp add: updateInvalidMagvar_def Let_def setMagvar_twice)
    qed
  next
    case (Some a)
    note d = Some
    show ?thesis
    proof (cases "find ?nz (drop (nat entryIndex) ?magvars)")
      case None
      with d True down up start found [OF d] show ?thesis
        by (simp add: updateInvalidMagvar_def Let_def setMagvar_twice)
    next
      case (Some b)
      with d True down up start found [OF d] found [OF Some] show ?thesis
        by (simp add: updateInvalidMagvar_def Let_def setMagvar_twice)
    qed
  qed
qed

theorem updateInvalidMagvar_backfill_witness:
  "updateInvalidMagvar exampleEnv 1 [0, 1, 2] 1 (exampleStore MapObjectTypes.USER 0) =
     Inr (setMagvar 1 7 (exampleStore MapObjectTypes.USER 0)) \<and>
   updateInvalidMagvar exampleEnv 1 [0, 1, 2] 1 (exampleStore INVALID 2) =
     Inr (setMagvar 1 7 (exampleStore INVALID 2)) \<and>
   updateInvalidMagvar exampleEnv 1 [0, 1, 2] 1 (exampleStore WAYPOINT 2) =
     Inr (exampleStore WAYPOINT 2) \<and>
   RouteMapObject.magvar (setMagvar 1 7 (exampleStore MapObjectTypes.USER 0) 1) = 7"
proof -
  have nonzero: "\<forall>v. almostNotEqual exampleEnv v 0 \<longrightarrow> v \<noteq> 0"
    by (auto simp: exampleEnv_def)
  have range: "0 \<le> (1::int) \<and> (1::int) < int (length [0::nat, 1, 2])" by simp
  have two: "nat 1 + 1 = Suc (Suc 0)" by simp
  from updateInvalidMagvar_backfill [OF nonzero range, of 1 "exampleStore MapObjectTypes.USER 0"]
    updateInvalidMagvar_backfill [OF nonzero range, of 1 "exampleStore INVALID 2"]
    updateInvalidMagvar_backfill [OF nonzero range, of 1 "exampleStore WAYPOINT 2"]
  show ?thesis
    by (simp add: two setMagvar_def exampleStore_def exampleEnv_def Let_def)
qed

end
